theory Spec2Isabelle
  imports Main
begin

section \<open>Python values, attributes and exceptions\<close>

text \<open>
  The values that reach the dispatcher as arguments, or sit in the configuration:
  \<open>PStr\<close> stands for both \<open>str\<close> and \<open>unicode\<close> (Python 2 \<open>basestring\<close>),
  \<open>PFile\<close> for a file-like object carrying its content.
\<close>

datatype pyval = PNone | PBool bool | PInt int | PStr string | PFile string

type_synonym pyargs = "pyval list"
type_synonym pykwargs = "string \<rightharpoonup> pyval"

text \<open>
  Every exception the module raises, with what its message is formatted from:
  \<^item> \<open>NotSupportedStorage kind\<close>: \<open>ValueError('Not supported storage ...')\<close> (line 29);
  \<^item> \<open>CannotDispatch name args kwargs\<close>: \<open>ValueError('Cannot dispath method ...')\<close> (line 51);
  \<^item> \<open>InvalidPath path\<close>: \<open>ValueError('Invalid path: ...')\<close> (line 90);
  \<^item> \<open>WrongCall m\<close>: \<open>ValueError('Wrong call (should be m)')\<close> (lines 143, 151, 158, 166);
  \<^item> \<open>NoSuchImage path\<close>: \<open>IOError('No such image ...')\<close> (lines 145, 160);
  \<^item> \<open>NoSuchImageSize path\<close>: \<open>OSError('No such image: ...')\<close> (line 193);
  \<^item> \<open>AttributeError v a\<close>: what Python raises when attribute \<open>a\<close> is looked up on a
    value \<open>v\<close> that has none (line 37, \<open>path.startswith\<close> on a path that is no string).
\<close>

datatype exn =
    NotSupportedStorage pyval
  | CannotDispatch string pyargs pykwargs
  | InvalidPath string
  | WrongCall string
  | NoSuchImage string
  | NoSuchImageSize string
  | AttributeError pyval string

text \<open>
  What \<open>getattr(obj, name)\<close> can give: a plain value that is not callable, or a callable
  with its truth value (\<open>True\<close> for functions and bound methods; an instance with
  \<open>__call__\<close> may define its own). Calling it applies it to the positional and the
  keyword arguments.
\<close>

datatype 'r attr =
    Data pyval
  | Callable bool "pyargs \<Rightarrow> pykwargs \<Rightarrow> 'r"

text \<open>An object, as \<open>hasattr\<close> and \<open>getattr\<close> see it: \<open>None\<close> where it has no such attribute.\<close>

type_synonym 'r pyobj = "string \<Rightarrow> 'r attr option"

fun truthy :: "pyval \<Rightarrow> bool" where
  "truthy PNone = False"
| "truthy (PBool b) = b"
| "truthy (PInt i) = (i \<noteq> 0)"
| "truthy (PStr s) = (s \<noteq> [])"
| "truthy (PFile f) = True"

fun attr_truthy :: "'r attr \<Rightarrow> bool" where
  "attr_truthy (Data v) = truthy v"
| "attr_truthy (Callable t f) = t"

fun isinstance_basestring :: "pyval \<Rightarrow> bool" where
  "isinstance_basestring (PStr s) = True"
| "isinstance_basestring v = False"

fun startswith :: "pyval \<Rightarrow> string \<Rightarrow> exn + bool" where
  "startswith (PStr s) p = Inr (take (length p) s = p)"
| "startswith v p = Inl (AttributeError v ''startswith'')"

section \<open>The base storage class and the configuration\<close>

text \<open>
  Modelled from the spec: the class \<open>Storage\<close> (\<open>from . import Storage\<close>) is not among
  the sources; \<open>Storage.images\<close> is the prefix of the image namespace, which the spec gives
  as the fixed constant \<open>images\<close>.
\<close>

definition Storage_images :: string where
  "Storage_images = ''images''"

text \<open>
  Modelled from the spec: \<open>Storage.repositories\<close>, of the same missing class, is the
  prefix of the repository namespace, the fixed constant \<open>repositories\<close>.
\<close>

definition Storage_repositories :: string where
  "Storage_repositories = ''repositories''"

text \<open>The configuration, as \<open>config.get\<close> reads it: a dictionary.\<close>

type_synonym config = "string \<rightharpoonup> pyval"

section \<open>GlanceStorage: the dispatcher\<close>

record 'r GlanceStorage =
  storage_config :: config
  storage_layers :: "'r pyobj"
  storage_base :: "'r pyobj"
  storage_tags :: "'r pyobj"

text \<open>
  \<open>GlanceStorage.__init__\<close> (lines 19-29). The four constructors it calls
  (\<open>GlanceStorageLayers\<close>, \<open>Storage\<close>, \<open>S3Storage\<close>, \<open>LocalStorage\<close>) are parameters: the
  objects they build are used by the dispatcher only through their attributes.
\<close>

definition GlanceStorage_init ::
  "(config \<Rightarrow> 'r pyobj) \<Rightarrow> 'r pyobj \<Rightarrow> (config \<Rightarrow> 'r pyobj) \<Rightarrow> (config \<Rightarrow> 'r pyobj)
    \<Rightarrow> config \<Rightarrow> exn + 'r GlanceStorage" where
  "GlanceStorage_init GlanceStorageLayers Storage S3Storage LocalStorage config =
     (let kind = (case config ''storage_alternate'' of None \<Rightarrow> PStr ''local'' | Some v \<Rightarrow> v)
      in if kind = PStr ''s3'' then
           Inr \<lparr>storage_config = config, storage_layers = GlanceStorageLayers config,
                storage_base = Storage, storage_tags = S3Storage config\<rparr>
         else if kind = PStr ''local'' then
           Inr \<lparr>storage_config = config, storage_layers = GlanceStorageLayers config,
                storage_base = Storage, storage_tags = LocalStorage config\<rparr>
         else Inl (NotSupportedStorage kind))"

text \<open>
  \<open>_resolve_class_path\<close>, lines 32-42: the path argument and the object it selects.
\<close>

definition resolve_path :: "pyargs \<Rightarrow> pykwargs \<Rightarrow> pyval" where
  "resolve_path args kwargs =
     (case kwargs ''path'' of
        Some v \<Rightarrow> v
      | None \<Rightarrow>
          (if length args > 0 \<and> isinstance_basestring (args ! 0) then args ! 0
           else PStr ''''))"

definition resolve_obj :: "'r GlanceStorage \<Rightarrow> pyargs \<Rightarrow> pykwargs \<Rightarrow> exn + 'r pyobj" where
  "resolve_obj self args kwargs =
     (let path = resolve_path args kwargs
      in case startswith path Storage_images of
           Inl e \<Rightarrow> Inl e
         | Inr True \<Rightarrow> Inr (storage_layers self)
         | Inr False \<Rightarrow>
             (case startswith path Storage_repositories of
                Inl e \<Rightarrow> Inl e
              | Inr True \<Rightarrow> Inr (storage_tags self)
              | Inr False \<Rightarrow> Inr (storage_base self)))"

text \<open>
  \<open>_resolve_class_path\<close>, whole (lines 31-45): a bare \<open>return\<close> gives \<open>None\<close>.
\<close>

definition resolve_class_path ::
  "'r GlanceStorage \<Rightarrow> string \<Rightarrow> pyargs \<Rightarrow> pykwargs \<Rightarrow> exn + 'r attr" where
  "resolve_class_path self method_name args kwargs =
     (case resolve_obj self args kwargs of
        Inl e \<Rightarrow> Inl e
      | Inr obj \<Rightarrow>
          (case obj method_name of
             None \<Rightarrow> Inr (Data PNone)
           | Some a \<Rightarrow> Inr a))"

text \<open>
  The closure that \<open>__getattr__(name)\<close> returns (lines 48-57), applied to its arguments:
  the result of the call it forwards, or the attribute itself. The keyword arguments are
  those of a storage operation: a keyword named \<open>self\<close> or \<open>method_name\<close> would clash
  with the parameters of \<open>_resolve_class_path\<close> before its body runs, and is left out.
\<close>

datatype 'r outcome = Called 'r | Returned pyval

definition dispatcher ::
  "'r GlanceStorage \<Rightarrow> string \<Rightarrow> pyargs \<Rightarrow> pykwargs \<Rightarrow> exn + 'r outcome" where
  "dispatcher self name args kwargs =
     (case resolve_class_path self name args kwargs of
        Inl e \<Rightarrow> Inl e
      | Inr a \<Rightarrow>
          (if \<not> attr_truthy a then Inl (CannotDispatch name args kwargs)
           else (case a of
                   Callable t f \<Rightarrow> Inr (Called (f args kwargs))
                 | Data v \<Rightarrow> Inr (Returned v))))"

section \<open>The image service\<close>

text \<open>
  Modelled from the spec: the Glance client (\<open>import glanceclient\<close>) and the service
  behind it are external collaborators, not among the sources. The spec gives the record
  ("identifier, disk/container format, a mapping from property-name to value, a display
  name (nullable), a size, and a bulk-data channel") and the contract: "list (with
  filter-by-format and filter-by-property), create (format + initial properties), update
  (properties, data, name - each independently settable, with a purge unspecified
  properties flag), delete, fetch-data, read size". The purge flag is "an update option
  controlling whether properties/fields not included in the update are deleted (purge) or
  preserved (merge)".

  A record carries the service's own key besides (\<open>image_key\<close>): the handle that a
  listing returns names the record by it. The service is its records in listing order,
  the key of the next record, and what it does with an update that carries no purge
  flag (\<open>purge_default\<close>): that is a property of the service, which neither the sources
  nor the spec fix, so every statement below is about both kinds of service unless it
  says which.
\<close>

record glance_image =
  image_key :: nat
  image_disk_format :: string
  image_container_format :: string
  image_properties :: "string \<rightharpoonup> string"
  image_name :: "string option"
  image_data :: string
  image_size :: nat

record glance =
  purge_default :: bool
  next_key :: nat
  records :: "glance_image list"

text \<open>
  Modelled from the spec: the \<open>filters\<close> dictionary of \<open>glance.images.list\<close>, by format,
  by property and by name; an absent key filters nothing.
\<close>

record filters =
  filter_disk_format :: "string option"
  filter_container_format :: "string option"
  filter_properties :: "(string \<times> string) list"
  filter_name :: "string option"

text \<open>Modelled from the spec: whether a record passes the filters of a listing.\<close>

definition matches :: "filters \<Rightarrow> glance_image \<Rightarrow> bool" where
  "matches f i \<longleftrightarrow>
     (case filter_disk_format f of None \<Rightarrow> True | Some d \<Rightarrow> image_disk_format i = d)
     \<and> (case filter_container_format f of None \<Rightarrow> True
         | Some c \<Rightarrow> image_container_format i = c)
     \<and> list_all (\<lambda>(k, v). image_properties i k = Some v) (filter_properties f)
     \<and> (case filter_name f of None \<Rightarrow> True | Some n \<Rightarrow> image_name i = Some n)"

text \<open>Modelled from the spec: \<open>glance.images.list(filters=f)\<close>, in listing order.\<close>

definition images_list :: "glance \<Rightarrow> filters \<Rightarrow> glance_image list" where
  "images_list g f = filter (matches f) (records g)"

text \<open>
  Modelled from the spec: \<open>glance.images.create(disk_format, container_format,
  properties)\<close>: a new record with a fresh key, no name and no data; the handle to it is
  returned.
\<close>

definition images_create ::
  "glance \<Rightarrow> string \<Rightarrow> string \<Rightarrow> (string \<rightharpoonup> string) \<Rightarrow> glance_image \<times> glance" where
  "images_create g df cf props =
     (let img = \<lparr>image_key = next_key g, image_disk_format = df,
                   image_container_format = cf, image_properties = props,
                   image_name = None, image_data = [], image_size = 0\<rparr>
      in (img, g\<lparr>next_key := Suc (next_key g), records := img # records g\<rparr>))"

text \<open>
  Modelled from the spec: the one field that an \<open>image.update\<close> call of the sources sets,
  beside the purge flag: \<open>properties=\<close>, \<open>name=\<close> or \<open>data=\<close>. An update that names no
  properties gives the empty dictionary of them.
\<close>

datatype update = Properties "string \<rightharpoonup> string" | Name "string option" | DataStream string

fun update_properties :: "update \<Rightarrow> (string \<rightharpoonup> string)" where
  "update_properties (Properties props) = props"
| "update_properties u = Map.empty"

text \<open>
  Modelled from the spec: the update of one record. Purging replaces the properties of
  the record by those of the update; merging adds them to the properties the record has.
\<close>

fun update_record :: "bool \<Rightarrow> update \<Rightarrow> glance_image \<Rightarrow> glance_image" where
  "update_record purge u i =
     (let i' = i\<lparr>image_properties :=
                   (if purge then update_properties u
                    else image_properties i ++ update_properties u)\<rparr>
      in case u of
           Properties props \<Rightarrow> i'
         | Name n \<Rightarrow> i'\<lparr>image_name := n\<rparr>
         | DataStream d \<Rightarrow> i'\<lparr>image_data := d, image_size := length d\<rparr>)"

text \<open>
  Modelled from the spec: \<open>image.update(..., purge_props=flag)\<close> through the handle
  \<open>image\<close>; \<open>flag = None\<close> is the call without \<open>purge_props\<close>, which leaves the choice
  to the service.
\<close>

definition image_update :: "glance \<Rightarrow> glance_image \<Rightarrow> update \<Rightarrow> bool option \<Rightarrow> glance" where
  "image_update g img u flag =
     (let purge = (case flag of None \<Rightarrow> purge_default g | Some b \<Rightarrow> b)
      in g\<lparr>records :=
             map (\<lambda>i. if image_key i = image_key img then update_record purge u i else i)
               (records g)\<rparr>)"

text \<open>Modelled from the spec: \<open>image.delete()\<close> through the handle \<open>image\<close>.\<close>

definition image_delete :: "glance \<Rightarrow> glance_image \<Rightarrow> glance" where
  "image_delete g img =
     g\<lparr>records := filter (\<lambda>i. image_key i \<noteq> image_key img) (records g)\<rparr>"

section \<open>GlanceStorageLayers: the layer store\<close>

text \<open>
  The service argument \<open>g\<close> of every operation is the endpoint that the client handle of
  \<open>_create_glance_client\<close> reaches; each operation returns its result, or the exception
  it raises, with the service as the call leaves it.
\<close>

definition disk_format :: string where
  "disk_format = ''raw''"

definition container_format :: string where
  "container_format = ''bare''"

text \<open>\<open>str.split(sep)\<close> with a one-character separator: empty segments are kept.\<close>

fun py_split :: "char \<Rightarrow> string \<Rightarrow> string list" where
  "py_split sep [] = [[]]"
| "py_split sep (c # cs) =
     (if c = sep then [] # py_split sep cs
      else (case py_split sep cs of
              w # ws \<Rightarrow> (c # w) # ws
            | [] \<Rightarrow> [[c]]))"

definition find_image_by_id :: "glance \<Rightarrow> string \<Rightarrow> glance_image option" where
  "find_image_by_id g image_id =
     (let filters = \<lparr>filter_disk_format = Some disk_format,
                     filter_container_format = Some container_format,
                     filter_properties = [(''id'', image_id)],
                     filter_name = None\<rparr>;
          images = images_list g filters
      in case images of [] \<Rightarrow> None | i # rest \<Rightarrow> Some i)"

definition init_path ::
  "glance \<Rightarrow> string \<Rightarrow> bool
    \<Rightarrow> (exn + glance_image option \<times> string option) \<times> glance" where
  "init_path g path create =
     (let parts = py_split CHR ''/'' path
      in if length parts \<noteq> 3 \<or> parts ! 0 \<noteq> Storage_images then (Inl (InvalidPath path), g)
         else
           (let image_id = parts ! 1;
                filename = parts ! 2;
                img = find_image_by_id g image_id;
                (img, g) =
                  (if img = None \<and> create then
                     (let (i, g') = images_create g disk_format container_format
                                      [''id'' \<mapsto> image_id]
                      in (Some i, g'))
                   else (img, g));
                propname = (if filename = ''layer'' then None else Some (''meta_'' @ filename))
            in (Inr (img, propname), g)))"

definition clear_images_name :: "glance \<Rightarrow> string \<Rightarrow> glance" where
  "clear_images_name g iname =
     (let images = images_list g \<lparr>filter_disk_format = None, filter_container_format = None,
                                  filter_properties = [], filter_name = Some iname\<rparr>
      in fold (\<lambda>img g. image_update g img (Name None) (Some False)) images g)"

text \<open>
  The name both handlers compute (lines 126-128 and 134-136): \<open>repository:tag\<close>, under
  \<open>namespace/\<close> unless the namespace is \<open>library\<close>.
\<close>

definition tag_image_name :: "string \<Rightarrow> string \<Rightarrow> string \<Rightarrow> string" where
  "tag_image_name namespace repository tag =
     (let iname = repository @ '':'' @ tag
      in if namespace \<noteq> ''library'' then namespace @ ''/'' @ iname else iname)"

text \<open>The handlers ignore their \<open>sender\<close> argument; the model leaves it out.\<close>

definition handler_tag_created ::
  "glance \<Rightarrow> string \<Rightarrow> string \<Rightarrow> string \<Rightarrow> string \<Rightarrow> glance" where
  "handler_tag_created g namespace repository tag val =
     (case find_image_by_id g val of
        None \<Rightarrow> g
      | Some img \<Rightarrow>
          (let iname = tag_image_name namespace repository tag;
               g = clear_images_name g iname
           in image_update g img (Name (Some iname)) (Some False)))"

definition handler_tag_deleted :: "glance \<Rightarrow> string \<Rightarrow> string \<Rightarrow> string \<Rightarrow> glance" where
  "handler_tag_deleted g namespace repository tag =
     clear_images_name g (tag_image_name namespace repository tag)"

definition get_content :: "glance \<Rightarrow> string \<Rightarrow> (exn + string) \<times> glance" where
  "get_content g path =
     (case init_path g path False of
        (Inl e, g) \<Rightarrow> (Inl e, g)
      | (Inr (img, propname), g) \<Rightarrow>
          (case propname of
             None \<Rightarrow> (Inl (WrongCall ''stream_read''), g)
           | Some p \<Rightarrow>
               (case img of
                  None \<Rightarrow> (Inl (NoSuchImage path), g)
                | Some i \<Rightarrow>
                    (case image_properties i p of
                       None \<Rightarrow> (Inl (NoSuchImage path), g)
                     | Some v \<Rightarrow> (Inr v, g)))))"

text \<open>
  With \<open>create\<close> left at \<open>True\<close>, \<open>_init_path\<close> returns a record; on \<open>None\<close> the
  \<open>image.update\<close> of lines 153 and 167 would raise an \<open>AttributeError\<close>.
\<close>

definition put_content :: "glance \<Rightarrow> string \<Rightarrow> string \<Rightarrow> (exn + unit) \<times> glance" where
  "put_content g path content =
     (case init_path g path True of
        (Inl e, g) \<Rightarrow> (Inl e, g)
      | (Inr (img, propname), g) \<Rightarrow>
          (case propname of
             None \<Rightarrow> (Inl (WrongCall ''stream_write''), g)
           | Some p \<Rightarrow>
               (case img of
                  None \<Rightarrow> (Inl (AttributeError PNone ''update''), g)
                | Some i \<Rightarrow>
                    (Inr (), image_update g i (Properties [p \<mapsto> content]) (Some False)))))"

definition stream_read :: "glance \<Rightarrow> string \<Rightarrow> (exn + string) \<times> glance" where
  "stream_read g path =
     (case init_path g path False of
        (Inl e, g) \<Rightarrow> (Inl e, g)
      | (Inr (img, propname), g) \<Rightarrow>
          (case propname of
             Some p \<Rightarrow> (Inl (WrongCall ''get_content''), g)
           | None \<Rightarrow>
               (case img of
                  None \<Rightarrow> (Inl (NoSuchImage path), g)
                | Some i \<Rightarrow> (Inr (image_data i), g))))"

definition stream_write :: "glance \<Rightarrow> string \<Rightarrow> string \<Rightarrow> (exn + unit) \<times> glance" where
  "stream_write g path fp =
     (case init_path g path True of
        (Inl e, g) \<Rightarrow> (Inl e, g)
      | (Inr (img, propname), g) \<Rightarrow>
          (case propname of
             Some p \<Rightarrow> (Inl (WrongCall ''put_content''), g)
           | None \<Rightarrow>
               (case img of
                  None \<Rightarrow> (Inl (AttributeError PNone ''update''), g)
                | Some i \<Rightarrow> (Inr (), image_update g i (DataStream fp) (Some False)))))"

definition exists :: "glance \<Rightarrow> string \<Rightarrow> (exn + bool) \<times> glance" where
  "exists g path =
     (case init_path g path False of
        (Inl e, g) \<Rightarrow> (Inl e, g)
      | (Inr (img, propname), g) \<Rightarrow>
          (case img of
             None \<Rightarrow> (Inr False, g)
           | Some i \<Rightarrow>
               (case propname of
                  None \<Rightarrow> (Inr True, g)
                | Some p \<Rightarrow> (Inr (image_properties i p \<noteq> None), g))))"

definition remove_path :: "glance \<Rightarrow> string \<Rightarrow> (exn + unit) \<times> glance" where
  "remove_path g path =
     (case init_path g path False of
        (Inl e, g) \<Rightarrow> (Inl e, g)
      | (Inr (img, propname), g) \<Rightarrow>
          (case img of
             None \<Rightarrow> (Inr (), g)
           | Some i \<Rightarrow>
               (case propname of
                  Some p \<Rightarrow>
                    (let props = image_properties i
                     in if props p \<noteq> None then
                          (Inr (), image_update g i (Properties (props(p := None))) None)
                        else (Inr (), g))
                | None \<Rightarrow> (Inr (), image_delete g i))))"

definition get_size :: "glance \<Rightarrow> string \<Rightarrow> (exn + nat) \<times> glance" where
  "get_size g path =
     (case init_path g path False of
        (Inl e, g) \<Rightarrow> (Inl e, g)
      | (Inr (img, propname), g) \<Rightarrow>
          (case img of
             None \<Rightarrow> (Inl (NoSuchImageSize path), g)
           | Some i \<Rightarrow> (Inr (image_size i), g)))"

section \<open>The invariant of the service\<close>

text \<open>
  The image id under which \<open>_find_image_by_id\<close> finds a record: its \<open>id\<close> property, when
  the record has the two formats of the layer store.
\<close>

definition layer_id :: "glance_image \<Rightarrow> string option" where
  "layer_id i =
     (if image_disk_format i = disk_format \<and> image_container_format i = container_format
      then image_properties i ''id'' else None)"

text \<open>
  What holds of the service as long as the layer store and the tag handlers alone write
  to it, one call after the other: the keys are those given out so far, no two records
  share one, and no two records carry the same image id. It holds of the empty service
  and every operation keeps it (lemmas \<open>service_inv_empty\<close> to
  \<open>service_inv_handler_tag_deleted\<close>).
\<close>

definition service_inv :: "glance \<Rightarrow> bool" where
  "service_inv g \<longleftrightarrow>
     distinct (map image_key (records g))
     \<and> (\<forall>i \<in> set (records g). image_key i < next_key g)
     \<and> (\<forall>i \<in> set (records g). \<forall>j \<in> set (records g).
           layer_id i \<noteq> None \<and> layer_id i = layer_id j \<longrightarrow> image_key i = image_key j)"

section \<open>Supporting lemmas\<close>

subsection \<open>Splitting a path\<close>

lemma py_split_not_Nil: "py_split sep s \<noteq> []"
  by (induction s) (auto split: list.splits)

lemma py_split_no_sep: "sep \<notin> set a \<Longrightarrow> py_split sep a = [a]"
  by (induction a) auto

lemma py_split_append: "sep \<notin> set a \<Longrightarrow> py_split sep (a @ sep # s) = a # py_split sep s"
  by (induction a) auto

lemma py_split_segments: "w \<in> set (py_split sep s) \<Longrightarrow> sep \<notin> set w"
  by (induction s arbitrary: w) (auto split: list.splits if_splits)

lemma py_split_Cons:
  "py_split sep s = w # ws \<Longrightarrow>
     (ws = [] \<and> s = w) \<or> (\<exists>rest. s = w @ sep # rest \<and> py_split sep rest = ws)"
proof (induction s arbitrary: w ws)
  case Nil
  then show ?case by simp
next
  case (Cons c cs)
  show ?case
  proof (cases "c = sep")
    case True
    with Cons.prems show ?thesis by auto
  next
    case False
    with Cons.prems obtain w' where w': "py_split sep cs = w' # ws" "w = c # w'"
      by (auto split: list.splits simp: py_split_not_Nil)
    from Cons.IH [OF w'(1)] w'(2) show ?thesis by auto
  qed
qed

lemma py_split_three:
  "py_split sep s = [a, b, c] \<longleftrightarrow>
     s = a @ sep # b @ sep # c \<and> sep \<notin> set a \<and> sep \<notin> set b \<and> sep \<notin> set c"
proof
  assume h: "py_split sep s = [a, b, c]"
  have nosep: "sep \<notin> set a" "sep \<notin> set b" "sep \<notin> set c"
    using py_split_segments [of _ sep s] h by auto
  from py_split_Cons [OF h] obtain r1 where r1: "s = a @ sep # r1" "py_split sep r1 = [b, c]"
    by auto
  from py_split_Cons [OF r1(2)] obtain r2 where r2: "r1 = b @ sep # r2" "py_split sep r2 = [c]"
    by auto
  from py_split_Cons [OF r2(2)] have "r2 = c"
    using py_split_not_Nil [of sep] by auto
  with r1 r2 nosep
  show "s = a @ sep # b @ sep # c \<and> sep \<notin> set a \<and> sep \<notin> set b \<and> sep \<notin> set c"
    by simp
next
  assume "s = a @ sep # b @ sep # c \<and> sep \<notin> set a \<and> sep \<notin> set b \<and> sep \<notin> set c"
  then show "py_split sep s = [a, b, c]"
    by (simp add: py_split_append py_split_no_sep)
qed


lemma length_py_split: "length (py_split sep s) = Suc (length (filter (\<lambda>c. c = sep) s))"
  by (induction s) (auto split: list.splits simp: py_split_not_Nil)

lemma py_split_first: "py_split sep s ! 0 = takeWhile (\<lambda>c. c \<noteq> sep) s"
  by (induction s) (auto split: list.splits simp: py_split_not_Nil)

lemma parsed_iff:
  "length (py_split CHR ''/'' path) = 3 \<and> py_split CHR ''/'' path ! 0 = Storage_images \<longleftrightarrow>
     (\<exists>image_id filename. py_split CHR ''/'' path = [Storage_images, image_id, filename])"
proof
  assume h: "length (py_split CHR ''/'' path) = 3 \<and> py_split CHR ''/'' path ! 0 = Storage_images"
  then obtain a b c where "py_split CHR ''/'' path = [a, b, c]"
    by (auto simp add: numeral_3_eq_3 length_Suc_conv)
  with h show "\<exists>image_id filename. py_split CHR ''/'' path = [Storage_images, image_id, filename]"
    by simp
next
  assume "\<exists>image_id filename. py_split CHR ''/'' path = [Storage_images, image_id, filename]"
  then show "length (py_split CHR ''/'' path) = 3 \<and> py_split CHR ''/'' path ! 0 = Storage_images"
    by auto
qed

lemma parsed_shape:
  "(\<exists>image_id filename. py_split CHR ''/'' path = [Storage_images, image_id, filename]) \<longleftrightarrow>
     (\<exists>image_id filename. path = Storage_images @ ''/'' @ image_id @ ''/'' @ filename
        \<and> CHR ''/'' \<notin> set image_id \<and> CHR ''/'' \<notin> set filename)"
  by (auto simp add: py_split_three Storage_images_def)

subsection \<open>Looking a record up, parsing a path\<close>

lemma first_of_filter: "(case filter P xs of [] \<Rightarrow> None | x # rest \<Rightarrow> Some x) = List.find P xs"
  by (induction xs) auto

lemma find_image_by_id_find:
  "find_image_by_id g image_id = List.find (\<lambda>i. layer_id i = Some image_id) (records g)"
proof -
  have "matches \<lparr>filter_disk_format = Some disk_format,
                 filter_container_format = Some container_format,
                 filter_properties = [(''id'', image_id)], filter_name = None\<rparr>
          = (\<lambda>i. layer_id i = Some image_id)"
    by (rule ext) (auto simp add: matches_def layer_id_def)
  then show ?thesis
    by (simp add: find_image_by_id_def images_list_def Let_def first_of_filter)
qed

lemma find_SomeD: "List.find P xs = Some x \<Longrightarrow> x \<in> set xs \<and> P x"
  by (induction xs) (auto split: if_splits)

lemma find_map_preserved:
  "(\<And>x. x \<in> set xs \<Longrightarrow> P (f x) = P x) \<Longrightarrow> List.find P (map f xs) = map_option f (List.find P xs)"
  by (induction xs) auto

lemma init_path_invalid:
  "\<not> (length (py_split CHR ''/'' path) = 3 \<and> py_split CHR ''/'' path ! 0 = Storage_images)
    \<Longrightarrow> init_path g path create = (Inl (InvalidPath path), g)"
  by (auto simp add: init_path_def Let_def)

lemma init_path_lookup:
  assumes "py_split CHR ''/'' path = [Storage_images, image_id, filename]"
  shows "init_path g path False =
           (Inr (find_image_by_id g image_id,
                 if filename = ''layer'' then None else Some (''meta_'' @ filename)), g)"
  using assms by (simp add: init_path_def Let_def)

lemma init_path_found:
  assumes "py_split CHR ''/'' path = [Storage_images, image_id, filename]"
    and "find_image_by_id g image_id = Some r"
  shows "init_path g path create =
           (Inr (Some r, if filename = ''layer'' then None else Some (''meta_'' @ filename)), g)"
  using assms by (simp add: init_path_def Let_def)

lemma init_path_create:
  assumes "py_split CHR ''/'' path = [Storage_images, image_id, filename]"
    and "find_image_by_id g image_id = None"
  shows "init_path g path True =
           (Inr (Some (fst (images_create g disk_format container_format [''id'' \<mapsto> image_id])),
                 if filename = ''layer'' then None else Some (''meta_'' @ filename)),
            snd (images_create g disk_format container_format [''id'' \<mapsto> image_id]))"
  using assms by (simp add: init_path_def Let_def split: prod.splits)

subsection \<open>Updates through a handle\<close>

lemma meta_not_id: "''meta_'' @ filename \<noteq> ''id''"
  by simp

lemma records_image_update:
  "records (image_update g img u (Some b)) =
     map (\<lambda>i. if image_key i = image_key img then update_record b u i else i) (records g)"
  by (simp add: image_update_def)

lemma records_image_update_default:
  "records (image_update g img u None) =
     map (\<lambda>i. if image_key i = image_key img then update_record (purge_default g) u i else i)
       (records g)"
  by (simp add: image_update_def)

lemma layer_id_update_record:
  "update_properties u ''id'' = None \<Longrightarrow> layer_id (update_record False u i) = layer_id i"
  by (cases u) (simp_all add: layer_id_def map_add_def)

lemma image_key_update_record: "image_key (update_record b u i) = image_key i"
  by (cases u) simp_all

lemma find_after_put:
  assumes "find_image_by_id g image_id = Some r" and "p \<noteq> ''id''"
  shows "find_image_by_id (image_update g r (Properties [p \<mapsto> content]) (Some False)) image_id
           = Some (r\<lparr>image_properties := (image_properties r)(p \<mapsto> content)\<rparr>)"
proof -
  let ?f = "\<lambda>i. if image_key i = image_key r
                 then update_record False (Properties [p \<mapsto> content]) i else i"
  have "List.find (\<lambda>i. layer_id i = Some image_id) (map ?f (records g))
          = map_option ?f (List.find (\<lambda>i. layer_id i = Some image_id) (records g))"
    using assms(2)
    by (intro find_map_preserved) (simp add: layer_id_update_record del: update_record.simps)
  then show ?thesis
    using assms(1) by (simp add: find_image_by_id_find records_image_update)
qed

subsection \<open>Clearing and setting names\<close>

lemma find_image_by_id_in_records:
  "find_image_by_id g image_id = Some r \<Longrightarrow> r \<in> set (records g) \<and> layer_id r = Some image_id"
  by (auto simp add: find_image_by_id_find dest: find_SomeD)

lemma distinct_key_eq:
  "distinct (map image_key xs) \<Longrightarrow> i \<in> set xs \<Longrightarrow> j \<in> set xs \<Longrightarrow>
     image_key i = image_key j \<longleftrightarrow> i = j"
  by (auto simp add: distinct_map dest: inj_onD)

lemma filter_key_single:
  "distinct (map image_key xs) \<Longrightarrow> r \<in> set xs \<Longrightarrow>
     filter (\<lambda>i. image_key i = image_key r) xs = [r]"
proof (induction xs)
  case Nil
  then show ?case by simp
next
  case (Cons a xs)
  show ?case
  proof (cases "a = r")
    case True
    from Cons.prems(1) True have "image_key r \<notin> image_key ` set xs"
      by simp
    then have "\<forall>i \<in> set xs. image_key i \<noteq> image_key r"
      by (metis imageI)
    then have "filter (\<lambda>i. image_key i = image_key r) xs = []"
      by (simp add: filter_empty_conv)
    with True show ?thesis by simp
  next
    case False
    with Cons.prems have "r \<in> set xs" "image_key a \<noteq> image_key r"
      by auto
    with Cons show ?thesis by simp
  qed
qed

lemma length_filter_mono:
  "(\<And>x. x \<in> set xs \<Longrightarrow> P x \<Longrightarrow> Q x) \<Longrightarrow> length (filter P xs) \<le> length (filter Q xs)"
  by (induction xs) auto

lemma fold_clear:
  "fold (\<lambda>img g. image_update g img (Name None) (Some False)) L g =
     g\<lparr>records := map (\<lambda>i. if image_key i \<in> image_key ` set L
                            then i\<lparr>image_name := None\<rparr> else i) (records g)\<rparr>"
proof (induction L arbitrary: g)
  case Nil
  show ?case by simp
next
  case (Cons x L)
  have "map (\<lambda>i. if image_key i \<in> image_key ` set L then i\<lparr>image_name := None\<rparr> else i)
          (map (\<lambda>i. if image_key i = image_key x then i\<lparr>image_name := None\<rparr> else i)
             (records g))
        = map (\<lambda>i. if image_key i \<in> image_key ` set (x # L)
                    then i\<lparr>image_name := None\<rparr> else i) (records g)"
    by auto
  then have "(image_update g x (Name None) (Some False))
          \<lparr>records := map (\<lambda>i. if image_key i \<in> image_key ` set L
                                 then i\<lparr>image_name := None\<rparr> else i)
                         (records (image_update g x (Name None) (Some False)))\<rparr>
        = g\<lparr>records := map (\<lambda>i. if image_key i \<in> image_key ` set (x # L)
                                 then i\<lparr>image_name := None\<rparr> else i) (records g)\<rparr>"
    by (simp add: image_update_def)
  moreover have "fold (\<lambda>img g. image_update g img (Name None) (Some False)) (x # L) g
        = fold (\<lambda>img g. image_update g img (Name None) (Some False)) L
            (image_update g x (Name None) (Some False))"
    by simp
  ultimately show ?case
    by (simp only: Cons.IH)
qed

lemma clear_images_name_records:
  assumes "distinct (map image_key (records g))"
  shows "clear_images_name g n =
     g\<lparr>records := map (\<lambda>i. if image_name i = Some n then i\<lparr>image_name := None\<rparr> else i)
                    (records g)\<rparr>"
proof -
  have m: "matches \<lparr>filter_disk_format = None, filter_container_format = None,
                    filter_properties = [], filter_name = Some n\<rparr>
             = (\<lambda>i. image_name i = Some n)"
    by (rule ext) (simp add: matches_def)
  have "map (\<lambda>i. if image_key i \<in> image_key ` set (filter (\<lambda>i. image_name i = Some n) (records g))
                 then i\<lparr>image_name := None\<rparr> else i) (records g)
      = map (\<lambda>i. if image_name i = Some n then i\<lparr>image_name := None\<rparr> else i) (records g)"
    using distinct_key_eq [OF assms] by (intro map_cong) auto
  then show ?thesis
    by (simp add: clear_images_name_def images_list_def m fold_clear)
qed

lemma handler_tag_created_records:
  assumes "find_image_by_id g val = Some r" and "distinct (map image_key (records g))"
  shows "handler_tag_created g namespace repository tag val =
     g\<lparr>records :=
         map (\<lambda>i. if image_key i = image_key r
                  then i\<lparr>image_name := Some (tag_image_name namespace repository tag)\<rparr>
                  else if image_name i = Some (tag_image_name namespace repository tag)
                  then i\<lparr>image_name := None\<rparr> else i)
           (records g)\<rparr>"
  using assms
  by (simp add: handler_tag_created_def clear_images_name_records image_update_def comp_def
        Let_def)

subsection \<open>Removing a property, deleting a record\<close>

lemma map_add_restrict_self: "m ++ m(p := None) = m"
  by (rule ext) (simp add: map_add_def split: option.splits)

lemma remove_path_property:
  assumes "py_split CHR ''/'' path = [Storage_images, image_id, filename]"
    and "filename \<noteq> ''layer''"
    and "find_image_by_id g image_id = Some r"
    and "image_properties r (''meta_'' @ filename) \<noteq> None"
  shows "remove_path g path =
           (Inr (), image_update g r
                      (Properties ((image_properties r)(''meta_'' @ filename := None))) None)"
  using init_path_lookup [OF assms(1), of g] assms(2,3,4)
  by (simp add: remove_path_def Let_def)

lemma records_remove_property:
  assumes "r \<in> set (records g)" and "distinct (map image_key (records g))"
  shows "records (image_update g r (Properties ((image_properties r)(p := None))) None) =
           map (\<lambda>i. if image_key i = image_key r
                    then (if purge_default g
                          then i\<lparr>image_properties := (image_properties i)(p := None)\<rparr>
                          else i)
                    else i) (records g)"
proof -
  have "(if image_key i = image_key r
         then update_record (purge_default g)
                (Properties ((image_properties r)(p := None))) i else i)
        = (if image_key i = image_key r
           then (if purge_default g
                 then i\<lparr>image_properties := (image_properties i)(p := None)\<rparr> else i)
           else i)"
    if "i \<in> set (records g)" for i
    using distinct_key_eq [OF assms(2) that assms(1)]
    by (auto simp add: map_add_restrict_self)
  then show ?thesis
    by (simp add: records_image_update_default)
qed

lemma image_update_records_eq:
  "image_update g r u flag = g\<lparr>records := records (image_update g r u flag)\<rparr>"
  by (simp add: image_update_def)

lemma find_after_remove_property:
  assumes "find_image_by_id g image_id = Some r" and "p \<noteq> ''id''"
    and "distinct (map image_key (records g))"
  shows "find_image_by_id
           (image_update g r (Properties ((image_properties r)(p := None))) None) image_id
         = Some (if purge_default g then r\<lparr>image_properties := (image_properties r)(p := None)\<rparr>
                 else r)"
proof -
  let ?f = "\<lambda>i. if image_key i = image_key r
                then (if purge_default g
                      then i\<lparr>image_properties := (image_properties i)(p := None)\<rparr> else i)
                else i"
  have r: "r \<in> set (records g)"
    using assms(1) find_image_by_id_in_records by blast
  have "List.find (\<lambda>i. layer_id i = Some image_id) (map ?f (records g))
          = map_option ?f (List.find (\<lambda>i. layer_id i = Some image_id) (records g))"
    using assms(2) by (intro find_map_preserved) (auto simp add: layer_id_def)
  then show ?thesis
    using assms(1) by (simp add: find_image_by_id_find records_remove_property [OF r assms(3)])
qed

lemma service_inv_distinct: "service_inv g \<Longrightarrow> distinct (map image_key (records g))"
  unfolding service_inv_def by blast

lemma service_inv_same_id:
  "service_inv g \<Longrightarrow> i \<in> set (records g) \<Longrightarrow> j \<in> set (records g) \<Longrightarrow>
     layer_id i = Some x \<Longrightarrow> layer_id j = Some x \<Longrightarrow> image_key i = image_key j"
  unfolding service_inv_def by (metis option.distinct(1))


lemma exists_lookup:
  assumes "py_split CHR ''/'' path = [Storage_images, image_id, filename]"
  shows "exists g path =
           (Inr (case find_image_by_id g image_id of
                   None \<Rightarrow> False
                 | Some i \<Rightarrow> filename = ''layer'' \<or> image_properties i (''meta_'' @ filename) \<noteq> None),
            g)"
  using init_path_lookup [OF assms, of g]
  by (simp add: exists_def split: option.splits)

lemma remove_path_merging:
  assumes "py_split CHR ''/'' path = [Storage_images, image_id, filename]"
    and "filename \<noteq> ''layer''"
    and "find_image_by_id g image_id = Some r"
    and "image_properties r (''meta_'' @ filename) \<noteq> None"
    and "distinct (map image_key (records g))"
    and "\<not> purge_default g"
  shows "remove_path g path = (Inr (), g)"
proof -
  let ?p = "''meta_'' @ filename"
  have r: "r \<in> set (records g)"
    using assms(3) find_image_by_id_in_records by blast
  have "map (\<lambda>i. if image_key i = image_key r
                 then (if purge_default g
                       then i\<lparr>image_properties := (image_properties i)(?p := None)\<rparr>
                       else i)
                 else i) (records g) = records g"
    using assms(6) by (intro map_idI) simp
  then have "image_update g r (Properties ((image_properties r)(?p := None))) None = g"
    using records_remove_property [OF r assms(5), of ?p]
    by (subst image_update_records_eq) simp
  then show ?thesis
    using remove_path_property [OF assms(1-4)] by simp
qed

subsection \<open>Updates that pass the merge flag\<close>

lemma find_image_by_id_purge:
  "find_image_by_id (g\<lparr>purge_default := b\<rparr>) image_id = find_image_by_id g image_id"
  by (simp add: find_image_by_id_find)

lemma init_path_purge:
  "init_path (g\<lparr>purge_default := b\<rparr>) path create =
     (fst (init_path g path create), (snd (init_path g path create))\<lparr>purge_default := b\<rparr>)"
  by (simp add: init_path_def Let_def find_image_by_id_purge images_create_def
        split: prod.splits)

lemma image_update_purge:
  "image_update (g\<lparr>purge_default := b\<rparr>) r u (Some f) =
     (image_update g r u (Some f))\<lparr>purge_default := b\<rparr>"
  by (simp add: image_update_def)

lemma put_content_purge:
  "put_content (g\<lparr>purge_default := b\<rparr>) path content =
     (fst (put_content g path content), (snd (put_content g path content))\<lparr>purge_default := b\<rparr>)"
  by (simp add: put_content_def init_path_purge image_update_purge
        split: prod.splits sum.splits option.splits)

lemma stream_write_purge:
  "stream_write (g\<lparr>purge_default := b\<rparr>) path fp =
     (fst (stream_write g path fp), (snd (stream_write g path fp))\<lparr>purge_default := b\<rparr>)"
  by (simp add: stream_write_def init_path_purge image_update_purge
        split: prod.splits sum.splits option.splits)

lemma clear_images_name_purge:
  "clear_images_name (g\<lparr>purge_default := b\<rparr>) n = (clear_images_name g n)\<lparr>purge_default := b\<rparr>"
  by (simp add: clear_images_name_def images_list_def fold_clear)

lemma handler_tag_created_purge:
  "handler_tag_created (g\<lparr>purge_default := b\<rparr>) namespace repository tag val =
     (handler_tag_created g namespace repository tag val)\<lparr>purge_default := b\<rparr>"
  by (simp add: handler_tag_created_def find_image_by_id_purge clear_images_name_purge
        image_update_purge Let_def split: option.splits)

lemma handler_tag_deleted_purge:
  "handler_tag_deleted (g\<lparr>purge_default := b\<rparr>) namespace repository tag =
     (handler_tag_deleted g namespace repository tag)\<lparr>purge_default := b\<rparr>"
  by (simp add: handler_tag_deleted_def clear_images_name_purge)

lemma put_content_call:
  "init_path g path True = (Inr (Some img, Some p), g1) \<Longrightarrow>
     put_content g path content =
       (Inr (), image_update g1 img (Properties [p \<mapsto> content]) (Some False))"
  by (simp add: put_content_def)

lemma stream_write_call:
  "init_path g path True = (Inr (Some img, None), g1) \<Longrightarrow>
     stream_write g path fp = (Inr (), image_update g1 img (DataStream fp) (Some False))"
  by (simp add: stream_write_def)

lemma properties_image_update_merge:
  assumes "update_properties u = Map.empty"
  shows "map image_properties (records (image_update g r u (Some False)))
           = map image_properties (records g)"
proof -
  have "image_properties (update_record False u i) = image_properties i" for i
    using assms by (cases u) simp_all
  then have "image_properties (if image_key i = image_key r then update_record False u i else i)
               = image_properties i" for i
    by (simp del: update_record.simps)
  then show ?thesis
    by (simp add: records_image_update comp_def del: update_record.simps)
qed

lemma properties_clear_images_name:
  "map image_properties (records (clear_images_name g n)) = map image_properties (records g)"
proof -
  have "image_properties (if c then i\<lparr>image_name := None\<rparr> else i) = image_properties i"
    for c and i :: glance_image
    by simp
  then show ?thesis
    by (simp add: clear_images_name_def Let_def fold_clear comp_def)
qed

lemma handler_tag_created_call:
  "handler_tag_created g namespace repository tag val =
     (case find_image_by_id g val of
        None \<Rightarrow> g
      | Some img \<Rightarrow>
          image_update (clear_images_name g (tag_image_name namespace repository tag)) img
            (Name (Some (tag_image_name namespace repository tag))) (Some False))"
  by (simp add: handler_tag_created_def Let_def split: option.splits)

lemma properties_handler_tag_created:
  "map image_properties (records (handler_tag_created g namespace repository tag val))
     = map image_properties (records g)"
  by (simp add: handler_tag_created_call properties_image_update_merge
        properties_clear_images_name split: option.splits)

subsection \<open>The invariant is kept\<close>

lemma service_inv_empty: "service_inv \<lparr>purge_default = b, next_key = n, records = []\<rparr>"
  by (simp add: service_inv_def)

lemma service_inv_map:
  assumes "service_inv g"
    and "\<And>i. i \<in> set (records g) \<Longrightarrow> image_key (f i) = image_key i \<and> layer_id (f i) = layer_id i"
  shows "service_inv (g\<lparr>records := map f (records g)\<rparr>)"
proof -
  have k: "map image_key (map f (records g)) = map image_key (records g)"
    using assms(2) by simp
  have d: "distinct (map image_key (map f (records g)))"
    using assms(1) unfolding k by (rule service_inv_distinct)
  have b: "\<forall>i \<in> set (map f (records g)). image_key i < next_key g"
    using assms unfolding service_inv_def by auto
  have u: "\<forall>i \<in> set (map f (records g)). \<forall>j \<in> set (map f (records g)).
             layer_id i \<noteq> None \<and> layer_id i = layer_id j \<longrightarrow> image_key i = image_key j"
  proof (intro ballI impI)
    fix i j
    assume "i \<in> set (map f (records g))" "j \<in> set (map f (records g))"
      and e: "layer_id i \<noteq> None \<and> layer_id i = layer_id j"
    then obtain i' j' where ij: "i' \<in> set (records g)" "i = f i'" "j' \<in> set (records g)" "j = f j'"
      by auto
    have fi: "image_key (f i') = image_key i'" "layer_id (f i') = layer_id i'"
      and fj: "image_key (f j') = image_key j'" "layer_id (f j') = layer_id j'"
      using assms(2) [OF ij(1)] assms(2) [OF ij(3)] by simp_all
    have li: "layer_id i = layer_id i'" and lj: "layer_id j = layer_id j'"
      using ij(2,4) fi(2) fj(2) by blast+
    from e have e1: "layer_id i \<noteq> None" and e2: "layer_id i = layer_id j"
      by blast+
    have ne: "layer_id i' \<noteq> None"
      using e1 unfolding li .
    have same: "layer_id i' = layer_id j'"
      using e2 unfolding li lj .
    from ne obtain x where x: "layer_id i' = Some x"
      by blast
    with same have "layer_id j' = Some x"
      by simp
    from service_inv_same_id [OF assms(1) ij(1,3) x this] ij fi fj
    show "image_key i = image_key j"
      by simp
  qed
  have sel: "records (g\<lparr>records := map f (records g)\<rparr>) = map f (records g)"
    "next_key (g\<lparr>records := map f (records g)\<rparr>) = next_key g"
    by simp_all
  from d b u show ?thesis
    unfolding service_inv_def sel by blast
qed

lemma service_inv_filter:
  assumes "service_inv g"
  shows "service_inv (g\<lparr>records := filter P (records g)\<rparr>)"
proof -
  have d: "distinct (map image_key (filter P (records g)))"
    using service_inv_distinct [OF assms] by (rule distinct_map_filter)
  have b: "\<forall>i \<in> set (filter P (records g)). image_key i < next_key g"
    using assms unfolding service_inv_def by simp
  have u: "\<forall>i \<in> set (filter P (records g)). \<forall>j \<in> set (filter P (records g)).
             layer_id i \<noteq> None \<and> layer_id i = layer_id j \<longrightarrow> image_key i = image_key j"
  proof (intro ballI impI)
    fix i j
    assume "i \<in> set (filter P (records g))" "j \<in> set (filter P (records g))"
      and e: "layer_id i \<noteq> None \<and> layer_id i = layer_id j"
    then have "i \<in> set (records g)" "j \<in> set (records g)"
      by simp_all
    with assms e show "image_key i = image_key j"
      unfolding service_inv_def by blast
  qed
  have sel: "records (g\<lparr>records := filter P (records g)\<rparr>) = filter P (records g)"
    "next_key (g\<lparr>records := filter P (records g)\<rparr>) = next_key g"
    by simp_all
  from d b u show ?thesis
    unfolding service_inv_def sel by blast
qed

lemma service_inv_image_update:
  assumes "service_inv g" and "update_properties u ''id'' = None"
  shows "service_inv (image_update g r u (Some False))"
proof -
  have "service_inv (g\<lparr>records := map (\<lambda>i. if image_key i = image_key r
                                           then update_record False u i else i) (records g)\<rparr>)"
    using assms(2)
    by (intro service_inv_map [OF assms(1)])
       (simp add: layer_id_update_record image_key_update_record del: update_record.simps)
  then show ?thesis
    by (simp add: image_update_def)
qed

lemma service_inv_images_create:
  assumes "service_inv g" and "find_image_by_id g image_id = None"
  shows "service_inv (snd (images_create g disk_format container_format [''id'' \<mapsto> image_id]))"
proof -
  define nr where "nr = \<lparr>image_key = next_key g, image_disk_format = disk_format,
             image_container_format = container_format,
             image_properties = [''id'' \<mapsto> image_id],
             image_name = None, image_data = [], image_size = 0\<rparr>"
  have n: "layer_id nr = Some image_id" "image_key nr = next_key g"
    by (simp_all add: layer_id_def nr_def)
  have eq: "snd (images_create g disk_format container_format [''id'' \<mapsto> image_id])
              = g\<lparr>next_key := Suc (next_key g), records := nr # records g\<rparr>"
    by (simp add: images_create_def nr_def Let_def)
  have fresh: "\<forall>i \<in> set (records g). layer_id i \<noteq> Some image_id"
    using assms(2) by (simp add: find_image_by_id_find find_None_iff)
  have keys: "\<forall>i \<in> set (records g). image_key i < next_key g"
    using assms(1) unfolding service_inv_def by blast
  have d: "distinct (map image_key (records g))"
    using assms(1) by (rule service_inv_distinct)
  have a: "distinct (map image_key (nr # records g))"
    using d keys n(2) by auto
  have b: "\<forall>i \<in> set (nr # records g). image_key i < Suc (next_key g)"
    using keys n(2) by auto
  have c: "image_key i = image_key j"
    if "i \<in> set (nr # records g)" "j \<in> set (nr # records g)"
      "layer_id i \<noteq> None \<and> layer_id i = layer_id j" for i j
  proof (cases "i = nr")
    case True
    with that fresh n show ?thesis by (cases "j = nr") auto
  next
    case False
    note i = this
    show ?thesis
    proof (cases "j = nr")
      case True
      with that fresh n i show ?thesis by auto
    next
      case False
      with i that have "i \<in> set (records g)" "j \<in> set (records g)"
        by auto
      with assms(1) that(3) show ?thesis
        unfolding service_inv_def by blast
    qed
  qed
  have sel: "records (g\<lparr>next_key := Suc (next_key g), records := nr # records g\<rparr>)
               = nr # records g"
    "next_key (g\<lparr>next_key := Suc (next_key g), records := nr # records g\<rparr>)
       = Suc (next_key g)"
    by simp_all
  from a b c show ?thesis
    unfolding eq service_inv_def sel by blast
qed

lemma init_path_propname:
  "init_path g path create = (Inr (img, Some p), g') \<Longrightarrow> p \<noteq> ''id''"
  by (auto simp add: init_path_def Let_def split: if_splits prod.splits)

lemma service_inv_init_path:
  assumes "service_inv g"
  shows "service_inv (snd (init_path g path create))"
proof (cases "length (py_split CHR ''/'' path) = 3 \<and> py_split CHR ''/'' path ! 0 = Storage_images")
  case False
  then show ?thesis
    using assms by (simp add: init_path_invalid)
next
  case True
  then obtain image_id filename
    where p: "py_split CHR ''/'' path = [Storage_images, image_id, filename]"
    using parsed_iff by blast
  show ?thesis
  proof (cases "find_image_by_id g image_id")
    case None
    show ?thesis
    proof (cases create)
      case True
      with init_path_create [OF p None] service_inv_images_create [OF assms None]
      show ?thesis by simp
    next
      case False
      with init_path_lookup [OF p, of g] assms show ?thesis by simp
    qed
  next
    case (Some r)
    with init_path_found [OF p Some, of create] assms show ?thesis by simp
  qed
qed

lemma service_inv_put_content:
  assumes "service_inv g"
  shows "service_inv (snd (put_content g path content))"
proof (cases "init_path g path True")
  case (Pair res g')
  then have g': "service_inv g'"
    using service_inv_init_path [OF assms, of path True] by simp
  show ?thesis
  proof (cases res)
    case (Inl e)
    with Pair g' show ?thesis by (simp add: put_content_def)
  next
    case (Inr ip)
    obtain img propname where ip: "ip = (img, propname)"
      by (cases ip)
    show ?thesis
    proof (cases propname)
      case None
      with Pair Inr ip g' show ?thesis by (simp add: put_content_def)
    next
      case (Some p)
      with Pair Inr ip have "p \<noteq> ''id''"
        using init_path_propname by blast
      then have "service_inv (image_update g' r (Properties [p \<mapsto> content]) (Some False))" for r
        using g' by (intro service_inv_image_update) simp_all
      with Pair Inr ip Some g' show ?thesis
        by (cases img) (simp_all add: put_content_def)
    qed
  qed
qed

lemma service_inv_stream_write:
  assumes "service_inv g"
  shows "service_inv (snd (stream_write g path fp))"
proof (cases "init_path g path True")
  case (Pair res g')
  then have g': "service_inv g'"
    using service_inv_init_path [OF assms, of path True] by simp
  have u: "service_inv (image_update g' r (DataStream fp) (Some False))" for r
    using g' by (intro service_inv_image_update) simp_all
  show ?thesis
  proof (cases res)
    case (Inl e)
    with Pair g' show ?thesis by (simp add: stream_write_def)
  next
    case (Inr ip)
    obtain img propname where ip: "ip = (img, propname)"
      by (cases ip)
    from Pair Inr ip g' u show ?thesis
      by (cases propname; cases img) (simp_all add: stream_write_def)
  qed
qed

lemma service_inv_remove_property:
  assumes "service_inv g" and "r \<in> set (records g)" and "p \<noteq> ''id''"
  shows "service_inv (image_update g r (Properties ((image_properties r)(p := None))) None)"
proof -
  have d: "distinct (map image_key (records g))"
    using assms(1) by (rule service_inv_distinct)
  have "service_inv (g\<lparr>records :=
           map (\<lambda>i. if image_key i = image_key r
                    then (if purge_default g
                          then i\<lparr>image_properties := (image_properties i)(p := None)\<rparr>
                          else i)
                    else i) (records g)\<rparr>)"
    using assms(3) by (intro service_inv_map [OF assms(1)]) (auto simp add: layer_id_def)
  then show ?thesis
    using records_remove_property [OF assms(2) d, of p]
    by (subst image_update_records_eq) simp
qed

lemma service_inv_remove_path:
  assumes "service_inv g"
  shows "service_inv (snd (remove_path g path))"
proof (cases "length (py_split CHR ''/'' path) = 3 \<and> py_split CHR ''/'' path ! 0 = Storage_images")
  case False
  then show ?thesis
    using assms by (simp add: remove_path_def init_path_invalid)
next
  case True
  then obtain image_id filename
    where p: "py_split CHR ''/'' path = [Storage_images, image_id, filename]"
    using parsed_iff by blast
  show ?thesis
  proof (cases "find_image_by_id g image_id")
    case None
    then show ?thesis
      using init_path_lookup [OF p, of g] assms by (simp add: remove_path_def)
  next
    case (Some r)
    then have r: "r \<in> set (records g)"
      using find_image_by_id_in_records by blast
    have del: "service_inv (image_delete g r)"
      using service_inv_filter [OF assms] by (simp add: image_delete_def)
    have upd: "service_inv (image_update g r
                 (Properties ((image_properties r)(''meta_'' @ filename := None))) None)"
      by (rule service_inv_remove_property [OF assms r meta_not_id])
    show ?thesis
      using init_path_lookup [OF p, of g] Some assms del upd
      by (simp add: remove_path_def Let_def)
  qed
qed

lemma service_inv_clear_images_name:
  assumes "service_inv g"
  shows "service_inv (clear_images_name g n)"
  unfolding clear_images_name_def Let_def fold_clear
  by (intro service_inv_map [OF assms]) (auto simp add: layer_id_def)

lemma service_inv_handler_tag_created:
  assumes "service_inv g"
  shows "service_inv (handler_tag_created g namespace repository tag val)"
  using assms
  by (simp add: handler_tag_created_def Let_def service_inv_clear_images_name
        service_inv_image_update split: option.splits)

lemma service_inv_handler_tag_deleted:
  assumes "service_inv g"
  shows "service_inv (handler_tag_deleted g namespace repository tag)"
  using assms by (simp add: handler_tag_deleted_def service_inv_clear_images_name)

section \<open>The specified properties\<close>

text \<open>
  C1. The dispatcher takes the path from the keyword argument \<open>path\<close> when there is
  one, else from the first positional argument when that is a string, else the empty
  string. For a path that is a string it forwards to the layer store when the path starts
  with the images prefix, else to the alternate store when it starts with the
  repositories prefix, else to the base store (the empty path among them): it calls the
  attribute it finds there on the very \<open>args\<close> and \<open>kwargs\<close> it was given, returns it
  when it is a true value that cannot be called, and raises the dispatch error when
  there is none or it is false.
\<close>

theorem C1_dispatcher_routes:
  assumes "resolve_path args kwargs = PStr p"
  shows "resolve_path args kwargs =
           (case kwargs ''path'' of
              Some v \<Rightarrow> v
            | None \<Rightarrow> (case args of PStr s # rest \<Rightarrow> PStr s | _ \<Rightarrow> PStr ''''))
       \<and> dispatcher self name args kwargs =
           (let obj = (if take (length Storage_images) p = Storage_images
                         then storage_layers self
                       else if take (length Storage_repositories) p = Storage_repositories
                         then storage_tags self
                       else storage_base self)
            in case obj name of
                 None \<Rightarrow> Inl (CannotDispatch name args kwargs)
               | Some (Data v) \<Rightarrow>
                   if truthy v then Inr (Returned v)
                   else Inl (CannotDispatch name args kwargs)
               | Some (Callable t f) \<Rightarrow>
                   if t then Inr (Called (f args kwargs))
                   else Inl (CannotDispatch name args kwargs))
       \<and> (p = [] \<longrightarrow> resolve_obj self args kwargs = Inr (storage_base self))"
proof (intro conjI)
  show "resolve_path args kwargs =
           (case kwargs ''path'' of
              Some v \<Rightarrow> v
            | None \<Rightarrow> (case args of PStr s # rest \<Rightarrow> PStr s | _ \<Rightarrow> PStr ''''))"
    by (cases args; simp add: resolve_path_def split: option.splits pyval.splits)
next
  show "dispatcher self name args kwargs =
           (let obj = (if take (length Storage_images) p = Storage_images
                         then storage_layers self
                       else if take (length Storage_repositories) p = Storage_repositories
                         then storage_tags self
                       else storage_base self)
            in case obj name of
                 None \<Rightarrow> Inl (CannotDispatch name args kwargs)
               | Some (Data v) \<Rightarrow>
                   if truthy v then Inr (Returned v)
                   else Inl (CannotDispatch name args kwargs)
               | Some (Callable t f) \<Rightarrow>
                   if t then Inr (Called (f args kwargs))
                   else Inl (CannotDispatch name args kwargs))"
    using assms
    by (simp add: dispatcher_def resolve_class_path_def resolve_obj_def Let_def
             split: option.splits attr.splits)
next
  show "p = [] \<longrightarrow> resolve_obj self args kwargs = Inr (storage_base self)"
    using assms
    by (simp add: resolve_obj_def Storage_images_def Storage_repositories_def)
qed

theorem C1_dispatcher_routes_witness:
  "resolve_path [PStr ''images/abc/layer''] Map.empty = PStr ''images/abc/layer''
   \<and> dispatcher
        \<lparr>storage_config = Map.empty,
         storage_layers = (\<lambda>n. Some (Callable True (\<lambda>a k. (''layers'', n, a, k ''path'')))),
         storage_base = (\<lambda>n. Some (Callable True (\<lambda>a k. (''base'', n, a, k ''path'')))),
         storage_tags = (\<lambda>n. Some (Callable True (\<lambda>a k. (''tags'', n, a, k ''path''))))\<rparr>
        ''stream_read'' [PStr ''images/abc/layer''] Map.empty
       = Inr (Called (''layers'', ''stream_read'', [PStr ''images/abc/layer''], None))
   \<and> resolve_path [] [''path'' \<mapsto> PStr ''repositories/ns/repo/tags/t''] = PStr ''repositories/ns/repo/tags/t''
   \<and> dispatcher
        \<lparr>storage_config = Map.empty,
         storage_layers = (\<lambda>n. Some (Callable True (\<lambda>a k. (''layers'', n, a, k ''path'')))),
         storage_base = (\<lambda>n. Some (Callable True (\<lambda>a k. (''base'', n, a, k ''path'')))),
         storage_tags = (\<lambda>n. Some (Callable True (\<lambda>a k. (''tags'', n, a, k ''path''))))\<rparr>
        ''get_content'' [] [''path'' \<mapsto> PStr ''repositories/ns/repo/tags/t'']
       = Inr (Called (''tags'', ''get_content'', [], Some (PStr ''repositories/ns/repo/tags/t'')))
   \<and> resolve_path [PStr ''uploads/u1''] Map.empty = PStr ''uploads/u1''
   \<and> dispatcher
        \<lparr>storage_config = Map.empty,
         storage_layers = (\<lambda>n. Some (Callable True (\<lambda>a k. (''layers'', n, a, k ''path'')))),
         storage_base = (\<lambda>n. Some (Callable True (\<lambda>a k. (''base'', n, a, k ''path'')))),
         storage_tags = (\<lambda>n. Some (Callable True (\<lambda>a k. (''tags'', n, a, k ''path''))))\<rparr>
        ''exists'' [PStr ''uploads/u1''] Map.empty
       = Inr (Called (''base'', ''exists'', [PStr ''uploads/u1''], None))"
proof -
  have a: "resolve_path [PStr ''images/abc/layer''] Map.empty = PStr ''images/abc/layer''"
    by (simp add: resolve_path_def)
  have b: "resolve_path [] [''path'' \<mapsto> PStr ''repositories/ns/repo/tags/t'']
             = PStr ''repositories/ns/repo/tags/t''"
    by (simp add: resolve_path_def)
  have c: "resolve_path [PStr ''uploads/u1''] Map.empty = PStr ''uploads/u1''"
    by (simp add: resolve_path_def)
  let ?S = "\<lparr>storage_config = Map.empty,
         storage_layers = (\<lambda>n. Some (Callable True (\<lambda>a k. (''layers'', n, a, k ''path'')))),
         storage_base = (\<lambda>n. Some (Callable True (\<lambda>a k. (''base'', n, a, k ''path'')))),
         storage_tags = (\<lambda>n. Some (Callable True (\<lambda>a k. (''tags'', n, a, k ''path''))))\<rparr>"
  show ?thesis
    using C1_dispatcher_routes [OF a, of ?S "''stream_read''"]
          C1_dispatcher_routes [OF b, of ?S "''get_content''"]
          C1_dispatcher_routes [OF c, of ?S "''exists''"]
    by (simp add: Storage_images_def Storage_repositories_def)
qed

text \<open>
  C2. On a path \<open>images/<image_id>/<filename>\<close> whose filename is not the layer name,
  \<open>put_content\<close> succeeds, \<open>get_content\<close> on the same path then returns the content
  written and changes nothing, and the record that held the image id before is still
  the one found, with every other property at its previous value.
\<close>

theorem C2_put_then_get:
  assumes "py_split CHR ''/'' path = [Storage_images, image_id, filename]"
    and "filename \<noteq> ''layer''"
  shows "fst (put_content g path content) = Inr ()
       \<and> get_content (snd (put_content g path content)) path
           = (Inr content, snd (put_content g path content))
       \<and> (\<forall>r. find_image_by_id g image_id = Some r \<longrightarrow>
            (\<exists>r'. find_image_by_id (snd (put_content g path content)) image_id = Some r'
                 \<and> image_key r' = image_key r
                 \<and> (\<forall>k. k \<noteq> ''meta_'' @ filename \<longrightarrow>
                        image_properties r' k = image_properties r k)))"
proof (cases "find_image_by_id g image_id")
  case None
  let ?n = "fst (images_create g disk_format container_format [''id'' \<mapsto> image_id])"
  let ?g1 = "snd (images_create g disk_format container_format [''id'' \<mapsto> image_id])"
  let ?g2 = "image_update ?g1 ?n (Properties [''meta_'' @ filename \<mapsto> content]) (Some False)"
  have put: "put_content g path content = (Inr (), ?g2)"
    using init_path_create [OF assms(1) None] assms(2) by (simp add: put_content_def)
  have "find_image_by_id ?g1 image_id = Some ?n"
    by (simp add: find_image_by_id_find images_create_def Let_def layer_id_def)
  from find_after_put [OF this meta_not_id, of filename content]
  have "find_image_by_id ?g2 image_id =
          Some (?n\<lparr>image_properties := (image_properties ?n)(''meta_'' @ filename \<mapsto> content)\<rparr>)" .
  then have "get_content ?g2 path = (Inr content, ?g2)"
    using init_path_lookup [OF assms(1), of ?g2] assms(2) by (simp add: get_content_def)
  with put None show ?thesis by simp
next
  case (Some r)
  let ?g2 = "image_update g r (Properties [''meta_'' @ filename \<mapsto> content]) (Some False)"
  have put: "put_content g path content = (Inr (), ?g2)"
    using init_path_found [OF assms(1) Some] assms(2) by (simp add: put_content_def)
  from find_after_put [OF Some meta_not_id, of filename content]
  have found: "find_image_by_id ?g2 image_id =
          Some (r\<lparr>image_properties := (image_properties r)(''meta_'' @ filename \<mapsto> content)\<rparr>)" .
  then have "get_content ?g2 path = (Inr content, ?g2)"
    using init_path_lookup [OF assms(1), of ?g2] assms(2) by (simp add: get_content_def)
  with put Some found show ?thesis by simp
qed


theorem C2_put_then_get_witness:
  "py_split CHR ''/'' ''images/abc/json'' = [Storage_images, ''abc'', ''json'']
   \<and> ''json'' \<noteq> ''layer''
   \<and> fst (put_content \<lparr>purge_default = True, next_key = 1,
          records = [\<lparr>image_key = 0, image_disk_format = ''raw'',
                      image_container_format = ''bare'',
                      image_properties = [''id'' \<mapsto> ''abc'', ''meta_checksum'' \<mapsto> ''sha''],
                      image_name = None, image_data = [], image_size = 0\<rparr>]\<rparr> ''images/abc/json'' ''{}'') = Inr ()
   \<and> get_content (snd (put_content \<lparr>purge_default = True, next_key = 1,
          records = [\<lparr>image_key = 0, image_disk_format = ''raw'',
                      image_container_format = ''bare'',
                      image_properties = [''id'' \<mapsto> ''abc'', ''meta_checksum'' \<mapsto> ''sha''],
                      image_name = None, image_data = [], image_size = 0\<rparr>]\<rparr> ''images/abc/json'' ''{}'')) ''images/abc/json''
       = (Inr ''{}'', snd (put_content \<lparr>purge_default = True, next_key = 1,
          records = [\<lparr>image_key = 0, image_disk_format = ''raw'',
                      image_container_format = ''bare'',
                      image_properties = [''id'' \<mapsto> ''abc'', ''meta_checksum'' \<mapsto> ''sha''],
                      image_name = None, image_data = [], image_size = 0\<rparr>]\<rparr> ''images/abc/json'' ''{}''))
   \<and> (\<exists>r'. find_image_by_id (snd (put_content \<lparr>purge_default = True, next_key = 1,
          records = [\<lparr>image_key = 0, image_disk_format = ''raw'',
                      image_container_format = ''bare'',
                      image_properties = [''id'' \<mapsto> ''abc'', ''meta_checksum'' \<mapsto> ''sha''],
                      image_name = None, image_data = [], image_size = 0\<rparr>]\<rparr> ''images/abc/json'' ''{}'')) ''abc'' = Some r'
          \<and> image_key r' = 0
          \<and> image_properties r' ''meta_checksum'' = Some ''sha'')"
proof -
  let ?g = "\<lparr>purge_default = True, next_key = 1,
          records = [\<lparr>image_key = 0, image_disk_format = ''raw'',
                      image_container_format = ''bare'',
                      image_properties = [''id'' \<mapsto> ''abc'', ''meta_checksum'' \<mapsto> ''sha''],
                      image_name = None, image_data = [], image_size = 0\<rparr>]\<rparr>"
  have h: "py_split CHR ''/'' ''images/abc/json'' = [Storage_images, ''abc'', ''json'']"
    by (simp add: Storage_images_def)
  have n: "''json'' \<noteq> ''layer''"
    by simp
  have f: "find_image_by_id ?g ''abc'' =
             Some \<lparr>image_key = 0, image_disk_format = ''raw'', image_container_format = ''bare'',
                   image_properties = [''id'' \<mapsto> ''abc'', ''meta_checksum'' \<mapsto> ''sha''],
                   image_name = None, image_data = [], image_size = 0\<rparr>"
    by (simp add: find_image_by_id_find layer_id_def disk_format_def container_format_def)
  from C2_put_then_get [OF h n, of ?g "''{}''"] f h n show ?thesis
    by auto
qed

text \<open>
  C3. A tag-created event whose image id no record carries (none that the lookup finds)
  leaves the service as it is. When the lookup finds a record and no two records share
  a key, the handler computes the name \<open>repository:tag\<close>, under \<open>namespace/\<close> unless the
  namespace is \<open>library\<close>, and the service afterwards is the one before with that name
  on the record found and cleared from every other record that held it; nothing else
  changes. So exactly one record holds the name afterwards, no other name is held by
  more records than before, and if no name was held twice before, none is afterwards.
\<close>

theorem C3_tag_created:
  "(find_image_by_id g val = None \<longrightarrow> handler_tag_created g namespace repository tag val = g)
   \<and> ((\<forall>i \<in> set (records g). image_properties i ''id'' \<noteq> Some val) \<longrightarrow>
        handler_tag_created g namespace repository tag val = g)
   \<and> (\<forall>r. find_image_by_id g val = Some r \<and> distinct (map image_key (records g)) \<longrightarrow>
        (let iname = (if namespace = ''library'' then repository @ '':'' @ tag
                      else namespace @ ''/'' @ repository @ '':'' @ tag);
             g' = handler_tag_created g namespace repository tag val
         in g' = g\<lparr>records :=
                     map (\<lambda>i. if image_key i = image_key r then i\<lparr>image_name := Some iname\<rparr>
                              else if image_name i = Some iname then i\<lparr>image_name := None\<rparr>
                              else i)
                       (records g)\<rparr>
            \<and> filter (\<lambda>i. image_name i = Some iname) (records g') = [r\<lparr>image_name := Some iname\<rparr>]
            \<and> (\<forall>n. n \<noteq> iname \<longrightarrow>
                  length (filter (\<lambda>i. image_name i = Some n) (records g'))
                    \<le> length (filter (\<lambda>i. image_name i = Some n) (records g)))
            \<and> ((\<forall>n. length (filter (\<lambda>i. image_name i = Some n) (records g)) \<le> 1) \<longrightarrow>
                (\<forall>n. length (filter (\<lambda>i. image_name i = Some n) (records g')) \<le> 1))))"
proof (intro conjI allI impI)
  assume "find_image_by_id g val = None"
  then show "handler_tag_created g namespace repository tag val = g"
    by (simp add: handler_tag_created_def)
next
  assume "\<forall>i \<in> set (records g). image_properties i ''id'' \<noteq> Some val"
  then have "\<forall>i \<in> set (records g). layer_id i \<noteq> Some val"
    by (auto simp add: layer_id_def)
  then have "find_image_by_id g val = None"
    by (simp add: find_image_by_id_find find_None_iff)
  then show "handler_tag_created g namespace repository tag val = g"
    by (simp add: handler_tag_created_def)
next
  fix r
  assume h: "find_image_by_id g val = Some r \<and> distinct (map image_key (records g))"
  define iname where "iname = tag_image_name namespace repository tag"
  define F :: "glance_image \<Rightarrow> glance_image"
    where "F = (\<lambda>i. if image_key i = image_key r then i\<lparr>image_name := Some iname\<rparr>
                            else if image_name i = Some iname then i\<lparr>image_name := None\<rparr>
                            else i)"
  define g' where "g' = handler_tag_created g namespace repository tag val"
  have nm: "iname = (if namespace = ''library'' then repository @ '':'' @ tag
                     else namespace @ ''/'' @ repository @ '':'' @ tag)"
    by (simp add: iname_def tag_image_name_def)
  have r: "r \<in> set (records g)"
    using h find_image_by_id_in_records by blast
  have g': "g' = g\<lparr>records := map F (records g)\<rparr>"
    using h handler_tag_created_records [of g val r namespace repository tag]
    by (simp add: g'_def F_def iname_def)
  have holds: "image_name (F i) = Some iname \<longleftrightarrow> image_key i = image_key r" for i
    by (simp add: F_def)
  have "filter (\<lambda>i. image_name i = Some iname) (map F (records g))
          = map F (filter (\<lambda>i. image_key i = image_key r) (records g))"
    by (simp add: filter_map comp_def holds)
  also have "\<dots> = [r\<lparr>image_name := Some iname\<rparr>]"
    using h r by (simp add: filter_key_single F_def)
  finally have one: "filter (\<lambda>i. image_name i = Some iname) (records g') = [r\<lparr>image_name := Some iname\<rparr>]"
    by (simp add: g')
  have others: "length (filter (\<lambda>i. image_name i = Some n) (records g'))
                  \<le> length (filter (\<lambda>i. image_name i = Some n) (records g))"
    if "n \<noteq> iname" for n
  proof -
    have "length (filter (\<lambda>i. image_name i = Some n) (map F (records g)))
            = length (filter (\<lambda>i. image_name (F i) = Some n) (records g))"
      by (simp add: filter_map comp_def)
    also have "\<dots> \<le> length (filter (\<lambda>i. image_name i = Some n) (records g))"
      using that by (intro length_filter_mono) (auto simp add: F_def split: if_splits)
    finally show ?thesis
      by (simp add: g')
  qed
  have all: "\<forall>n. length (filter (\<lambda>i. image_name i = Some n) (records g')) \<le> 1"
    if u: "\<forall>n. length (filter (\<lambda>i. image_name i = Some n) (records g)) \<le> 1"
  proof
    fix n
    show "length (filter (\<lambda>i. image_name i = Some n) (records g')) \<le> 1"
    proof (cases "n = iname")
      case True
      with one show ?thesis by simp
    next
      case False
      from others [OF False] u show ?thesis
        using le_trans by blast
    qed
  qed
  from g' one others all
  show "let iname = (if namespace = ''library'' then repository @ '':'' @ tag
                      else namespace @ ''/'' @ repository @ '':'' @ tag);
             g' = handler_tag_created g namespace repository tag val
         in g' = g\<lparr>records :=
                     map (\<lambda>i. if image_key i = image_key r then i\<lparr>image_name := Some iname\<rparr>
                              else if image_name i = Some iname then i\<lparr>image_name := None\<rparr>
                              else i)
                       (records g)\<rparr>
            \<and> filter (\<lambda>i. image_name i = Some iname) (records g') = [r\<lparr>image_name := Some iname\<rparr>]
            \<and> (\<forall>n. n \<noteq> iname \<longrightarrow>
                  length (filter (\<lambda>i. image_name i = Some n) (records g'))
                    \<le> length (filter (\<lambda>i. image_name i = Some n) (records g)))
            \<and> ((\<forall>n. length (filter (\<lambda>i. image_name i = Some n) (records g)) \<le> 1) \<longrightarrow>
                (\<forall>n. length (filter (\<lambda>i. image_name i = Some n) (records g')) \<le> 1))"
    unfolding Let_def nm [symmetric] g'_def [symmetric] F_def [symmetric] by blast
qed

theorem C3_tag_created_witness:
  "find_image_by_id \<lparr>purge_default = True, next_key = 2,
         records =
           [\<lparr>image_key = 1, image_disk_format = ''raw'', image_container_format = ''bare'',
             image_properties = [''id'' \<mapsto> ''new''], image_name = None,
             image_data = [], image_size = 0\<rparr>,
            \<lparr>image_key = 0, image_disk_format = ''raw'', image_container_format = ''bare'',
             image_properties = [''id'' \<mapsto> ''old''], image_name = Some ''repo:tag'',
             image_data = [], image_size = 0\<rparr>]\<rparr> ''new'' = Some \<lparr>image_key = 1, image_disk_format = ''raw'', image_container_format = ''bare'',
           image_properties = [''id'' \<mapsto> ''new''], image_name = None,
           image_data = [], image_size = 0\<rparr>
   \<and> distinct (map image_key (records \<lparr>purge_default = True, next_key = 2,
         records =
           [\<lparr>image_key = 1, image_disk_format = ''raw'', image_container_format = ''bare'',
             image_properties = [''id'' \<mapsto> ''new''], image_name = None,
             image_data = [], image_size = 0\<rparr>,
            \<lparr>image_key = 0, image_disk_format = ''raw'', image_container_format = ''bare'',
             image_properties = [''id'' \<mapsto> ''old''], image_name = Some ''repo:tag'',
             image_data = [], image_size = 0\<rparr>]\<rparr>))
   \<and> filter (\<lambda>i. image_name i = Some ''repo:tag'')
        (records (handler_tag_created \<lparr>purge_default = True, next_key = 2,
         records =
           [\<lparr>image_key = 1, image_disk_format = ''raw'', image_container_format = ''bare'',
             image_properties = [''id'' \<mapsto> ''new''], image_name = None,
             image_data = [], image_size = 0\<rparr>,
            \<lparr>image_key = 0, image_disk_format = ''raw'', image_container_format = ''bare'',
             image_properties = [''id'' \<mapsto> ''old''], image_name = Some ''repo:tag'',
             image_data = [], image_size = 0\<rparr>]\<rparr> ''library'' ''repo'' ''tag'' ''new''))
       = [\<lparr>image_key = 1, image_disk_format = ''raw'', image_container_format = ''bare'',
           image_properties = [''id'' \<mapsto> ''new''], image_name = None,
           image_data = [], image_size = 0\<rparr>\<lparr>image_name := Some ''repo:tag''\<rparr>]
   \<and> find_image_by_id \<lparr>purge_default = True, next_key = 2,
         records =
           [\<lparr>image_key = 1, image_disk_format = ''raw'', image_container_format = ''bare'',
             image_properties = [''id'' \<mapsto> ''new''], image_name = None,
             image_data = [], image_size = 0\<rparr>,
            \<lparr>image_key = 0, image_disk_format = ''raw'', image_container_format = ''bare'',
             image_properties = [''id'' \<mapsto> ''old''], image_name = Some ''repo:tag'',
             image_data = [], image_size = 0\<rparr>]\<rparr> ''none'' = None
   \<and> handler_tag_created \<lparr>purge_default = True, next_key = 2,
         records =
           [\<lparr>image_key = 1, image_disk_format = ''raw'', image_container_format = ''bare'',
             image_properties = [''id'' \<mapsto> ''new''], image_name = None,
             image_data = [], image_size = 0\<rparr>,
            \<lparr>image_key = 0, image_disk_format = ''raw'', image_container_format = ''bare'',
             image_properties = [''id'' \<mapsto> ''old''], image_name = Some ''repo:tag'',
             image_data = [], image_size = 0\<rparr>]\<rparr> ''library'' ''repo'' ''tag'' ''none'' = \<lparr>purge_default = True, next_key = 2,
         records =
           [\<lparr>image_key = 1, image_disk_format = ''raw'', image_container_format = ''bare'',
             image_properties = [''id'' \<mapsto> ''new''], image_name = None,
             image_data = [], image_size = 0\<rparr>,
            \<lparr>image_key = 0, image_disk_format = ''raw'', image_container_format = ''bare'',
             image_properties = [''id'' \<mapsto> ''old''], image_name = Some ''repo:tag'',
             image_data = [], image_size = 0\<rparr>]\<rparr>"
proof -
  let ?g = "\<lparr>purge_default = True, next_key = 2,
         records =
           [\<lparr>image_key = 1, image_disk_format = ''raw'', image_container_format = ''bare'',
             image_properties = [''id'' \<mapsto> ''new''], image_name = None,
             image_data = [], image_size = 0\<rparr>,
            \<lparr>image_key = 0, image_disk_format = ''raw'', image_container_format = ''bare'',
             image_properties = [''id'' \<mapsto> ''old''], image_name = Some ''repo:tag'',
             image_data = [], image_size = 0\<rparr>]\<rparr>"
  let ?r = "\<lparr>image_key = 1, image_disk_format = ''raw'', image_container_format = ''bare'',
           image_properties = [''id'' \<mapsto> ''new''], image_name = None,
           image_data = [], image_size = 0\<rparr>"
  have f: "find_image_by_id ?g ''new'' = Some ?r"
    and n: "find_image_by_id ?g ''none'' = None"
    by (simp_all add: find_image_by_id_find layer_id_def disk_format_def container_format_def)
  have d: "distinct (map image_key (records ?g))"
    by simp
  note t = C3_tag_created [of ?g "''new''" "''library''" "''repo''" "''tag''",
             THEN conjunct2, THEN conjunct2, rule_format, OF conjI [OF f d]]
  have c1: "filter (\<lambda>i. image_name i = Some ''repo:tag'')
              (records (handler_tag_created ?g ''library'' ''repo'' ''tag'' ''new''))
            = [?r\<lparr>image_name := Some ''repo:tag''\<rparr>]"
    using t unfolding Let_def by simp
  have c2: "handler_tag_created ?g ''library'' ''repo'' ''tag'' ''none'' = ?g"
    using C3_tag_created [of ?g "''none''" "''library''" "''repo''" "''tag''", THEN conjunct1] n
    by (rule mp)
  from f d c1 n c2 show ?thesis
    by (intro conjI)
qed







text \<open>
  C6. \<open>_init_path\<close> raises the invalid-path error exactly when the path does not split
  at \<open>/\<close> into three segments of which the first is the images prefix, that is exactly
  when it is not of the form \<open>images/<image_id>/<filename>\<close> with no further \<open>/\<close>; it
  raises nothing else, and leaves the service untouched when it raises. When it returns,
  the property name is \<open>None\<close> (bulk data) exactly for the filename \<open>layer\<close> and is
  \<open>meta_<filename>\<close> for every other filename.
\<close>

theorem C6_init_path_parsing:
  "(fst (init_path g path create) = Inl (InvalidPath path) \<longleftrightarrow>
      \<not> (length (py_split CHR ''/'' path) = 3 \<and> py_split CHR ''/'' path ! 0 = Storage_images))
   \<and> (fst (init_path g path create) = Inl (InvalidPath path) \<longleftrightarrow>
      \<not> (\<exists>image_id filename. path = Storage_images @ ''/'' @ image_id @ ''/'' @ filename
            \<and> CHR ''/'' \<notin> set image_id \<and> CHR ''/'' \<notin> set filename))
   \<and> (\<forall>e. fst (init_path g path create) = Inl e \<longrightarrow>
          e = InvalidPath path \<and> snd (init_path g path create) = g)
   \<and> (\<forall>image_id filename.
        py_split CHR ''/'' path = [Storage_images, image_id, filename] \<longrightarrow>
          (\<exists>img. fst (init_path g path create) =
                   Inr (img, if filename = ''layer'' then None else Some (''meta_'' @ filename))))
   \<and> (\<forall>img propname. fst (init_path g path create) = Inr (img, propname) \<longrightarrow>
          (propname = None \<longleftrightarrow> py_split CHR ''/'' path ! 2 = ''layer'')
        \<and> (propname \<noteq> None \<longleftrightarrow>
             propname = Some (''meta_'' @ py_split CHR ''/'' path ! 2)))"
proof -
  have a: "fst (init_path g path create) = Inl (InvalidPath path) \<longleftrightarrow>
      \<not> (length (py_split CHR ''/'' path) = 3 \<and> py_split CHR ''/'' path ! 0 = Storage_images)"
    by (auto simp add: init_path_def Let_def split: prod.splits if_splits)
  have b: "fst (init_path g path create) = Inl (InvalidPath path) \<longleftrightarrow>
      \<not> (\<exists>image_id filename. path = Storage_images @ ''/'' @ image_id @ ''/'' @ filename
            \<and> CHR ''/'' \<notin> set image_id \<and> CHR ''/'' \<notin> set filename)"
    unfolding a parsed_iff parsed_shape ..
  have c: "\<forall>e. fst (init_path g path create) = Inl e \<longrightarrow>
          e = InvalidPath path \<and> snd (init_path g path create) = g"
    by (auto simp add: init_path_def Let_def split: prod.splits if_splits)
  have d: "\<forall>image_id filename.
        py_split CHR ''/'' path = [Storage_images, image_id, filename] \<longrightarrow>
          (\<exists>img. fst (init_path g path create) =
                   Inr (img, if filename = ''layer'' then None else Some (''meta_'' @ filename)))"
    by (auto simp add: init_path_def Let_def split: prod.splits if_splits)
  have e: "\<forall>img propname. fst (init_path g path create) = Inr (img, propname) \<longrightarrow>
          (propname = None \<longleftrightarrow> py_split CHR ''/'' path ! 2 = ''layer'')
        \<and> (propname \<noteq> None \<longleftrightarrow>
             propname = Some (''meta_'' @ py_split CHR ''/'' path ! 2))"
    by (auto simp add: init_path_def Let_def split: prod.splits if_splits)
  from a b c d e show ?thesis by blast
qed


theorem C6_init_path_parsing_witness:
  "init_path \<lparr>purge_default = True, next_key = 1,
          records = [\<lparr>image_key = 0, image_disk_format = ''raw'',
                      image_container_format = ''bare'',
                      image_properties = [''id'' \<mapsto> ''abc'', ''meta_checksum'' \<mapsto> ''sha''],
                      image_name = None, image_data = [], image_size = 0\<rparr>]\<rparr> ''images/abc'' True = (Inl (InvalidPath ''images/abc''), \<lparr>purge_default = True, next_key = 1,
          records = [\<lparr>image_key = 0, image_disk_format = ''raw'',
                      image_container_format = ''bare'',
                      image_properties = [''id'' \<mapsto> ''abc'', ''meta_checksum'' \<mapsto> ''sha''],
                      image_name = None, image_data = [], image_size = 0\<rparr>]\<rparr>)
   \<and> init_path \<lparr>purge_default = True, next_key = 1,
          records = [\<lparr>image_key = 0, image_disk_format = ''raw'',
                      image_container_format = ''bare'',
                      image_properties = [''id'' \<mapsto> ''abc'', ''meta_checksum'' \<mapsto> ''sha''],
                      image_name = None, image_data = [], image_size = 0\<rparr>]\<rparr> ''repositories/abc/json'' True
       = (Inl (InvalidPath ''repositories/abc/json''), \<lparr>purge_default = True, next_key = 1,
          records = [\<lparr>image_key = 0, image_disk_format = ''raw'',
                      image_container_format = ''bare'',
                      image_properties = [''id'' \<mapsto> ''abc'', ''meta_checksum'' \<mapsto> ''sha''],
                      image_name = None, image_data = [], image_size = 0\<rparr>]\<rparr>)
   \<and> init_path \<lparr>purge_default = True, next_key = 1,
          records = [\<lparr>image_key = 0, image_disk_format = ''raw'',
                      image_container_format = ''bare'',
                      image_properties = [''id'' \<mapsto> ''abc'', ''meta_checksum'' \<mapsto> ''sha''],
                      image_name = None, image_data = [], image_size = 0\<rparr>]\<rparr> ''images/abc/json/x'' False = (Inl (InvalidPath ''images/abc/json/x''), \<lparr>purge_default = True, next_key = 1,
          records = [\<lparr>image_key = 0, image_disk_format = ''raw'',
                      image_container_format = ''bare'',
                      image_properties = [''id'' \<mapsto> ''abc'', ''meta_checksum'' \<mapsto> ''sha''],
                      image_name = None, image_data = [], image_size = 0\<rparr>]\<rparr>)
   \<and> py_split CHR ''/'' ''images/abc/json'' = [Storage_images, ''abc'', ''json'']
   \<and> (\<exists>img. fst (init_path \<lparr>purge_default = True, next_key = 1,
          records = [\<lparr>image_key = 0, image_disk_format = ''raw'',
                      image_container_format = ''bare'',
                      image_properties = [''id'' \<mapsto> ''abc'', ''meta_checksum'' \<mapsto> ''sha''],
                      image_name = None, image_data = [], image_size = 0\<rparr>]\<rparr> ''images/abc/json'' True) = Inr (img, Some ''meta_json''))
   \<and> py_split CHR ''/'' ''images/abc/layer'' = [Storage_images, ''abc'', ''layer'']
   \<and> (\<exists>img. fst (init_path \<lparr>purge_default = True, next_key = 1,
          records = [\<lparr>image_key = 0, image_disk_format = ''raw'',
                      image_container_format = ''bare'',
                      image_properties = [''id'' \<mapsto> ''abc'', ''meta_checksum'' \<mapsto> ''sha''],
                      image_name = None, image_data = [], image_size = 0\<rparr>]\<rparr> ''images/abc/layer'' True) = Inr (img, None))"
proof -
  let ?g = "\<lparr>purge_default = True, next_key = 1,
          records = [\<lparr>image_key = 0, image_disk_format = ''raw'',
                      image_container_format = ''bare'',
                      image_properties = [''id'' \<mapsto> ''abc'', ''meta_checksum'' \<mapsto> ''sha''],
                      image_name = None, image_data = [], image_size = 0\<rparr>]\<rparr>"
  have h1: "\<not> (length (py_split CHR ''/'' ''images/abc'') = 3
               \<and> py_split CHR ''/'' ''images/abc'' ! 0 = Storage_images)"
    and h2: "\<not> (length (py_split CHR ''/'' ''repositories/abc/json'') = 3
               \<and> py_split CHR ''/'' ''repositories/abc/json'' ! 0 = Storage_images)"
    and h3: "\<not> (length (py_split CHR ''/'' ''images/abc/json/x'') = 3
               \<and> py_split CHR ''/'' ''images/abc/json/x'' ! 0 = Storage_images)"
    and h4: "py_split CHR ''/'' ''images/abc/json'' = [Storage_images, ''abc'', ''json'']"
    and h5: "py_split CHR ''/'' ''images/abc/layer'' = [Storage_images, ''abc'', ''layer'']"
    by (simp_all add: Storage_images_def)
  have inv: "init_path ?g p c = (Inl (InvalidPath p), ?g)"
    if "\<not> (length (py_split CHR ''/'' p) = 3 \<and> py_split CHR ''/'' p ! 0 = Storage_images)"
    for p c
  proof -
    note t = C6_init_path_parsing [of ?g p c]
    from t [THEN conjunct1] that have e: "fst (init_path ?g p c) = Inl (InvalidPath p)"
      by (rule iffD2)
    from t [THEN conjunct2, THEN conjunct2, THEN conjunct1] e
    have "snd (init_path ?g p c) = ?g"
      by blast
    with e show ?thesis
      by (simp add: prod_eq_iff)
  qed
  have c4: "\<exists>img. fst (init_path ?g ''images/abc/json'' True) = Inr (img, Some ''meta_json'')"
    using C6_init_path_parsing [of ?g "''images/abc/json''" True,
            THEN conjunct2, THEN conjunct2, THEN conjunct2, THEN conjunct1,
            rule_format, OF h4]
    by simp
  have c5: "\<exists>img. fst (init_path ?g ''images/abc/layer'' True) = Inr (img, None)"
    using C6_init_path_parsing [of ?g "''images/abc/layer''" True,
            THEN conjunct2, THEN conjunct2, THEN conjunct2, THEN conjunct1,
            rule_format, OF h5]
    by simp
  from inv [OF h1] inv [OF h2] inv [OF h3] h4 c4 h5 c5 show ?thesis
    by (intro conjI)
qed

text \<open>
  C7. The constructor takes the object-store backend for \<open>storage_alternate = 's3'\<close>,
  the local-disk backend for \<open>'local'\<close> and when the key is absent, and for every other
  value raises the configuration error, so that no dispatcher is built.
\<close>

theorem C7_alternate_store_selection:
  "(config ''storage_alternate'' = Some (PStr ''s3'') \<longrightarrow>
      GlanceStorage_init GlanceStorageLayers Storage S3Storage LocalStorage config
        = Inr \<lparr>storage_config = config, storage_layers = GlanceStorageLayers config,
               storage_base = Storage, storage_tags = S3Storage config\<rparr>)
   \<and> (config ''storage_alternate'' = Some (PStr ''local'') \<or> config ''storage_alternate'' = None \<longrightarrow>
      GlanceStorage_init GlanceStorageLayers Storage S3Storage LocalStorage config
        = Inr \<lparr>storage_config = config, storage_layers = GlanceStorageLayers config,
               storage_base = Storage, storage_tags = LocalStorage config\<rparr>)
   \<and> (\<forall>v. config ''storage_alternate'' = Some v \<and> v \<noteq> PStr ''s3'' \<and> v \<noteq> PStr ''local'' \<longrightarrow>
      GlanceStorage_init GlanceStorageLayers Storage S3Storage LocalStorage config
        = Inl (NotSupportedStorage v)
      \<and> (\<forall>self. GlanceStorage_init GlanceStorageLayers Storage S3Storage LocalStorage config
                  \<noteq> Inr self))"
  by (auto simp add: GlanceStorage_init_def)

theorem C7_alternate_store_selection_witness:
  "GlanceStorage_init (\<lambda>c. Map.empty) Map.empty
      (\<lambda>c n. Some (Data (PStr ''s3 backend''))) (\<lambda>c n. Some (Data (PStr ''local backend'')))
      [''storage_alternate'' \<mapsto> PStr ''s3'']
     = Inr \<lparr>storage_config = [''storage_alternate'' \<mapsto> PStr ''s3''],
            storage_layers = Map.empty, storage_base = Map.empty,
            storage_tags = (\<lambda>n. Some (Data (PStr ''s3 backend'') :: unit attr))\<rparr>
   \<and> GlanceStorage_init (\<lambda>c. Map.empty) Map.empty
      (\<lambda>c n. Some (Data (PStr ''s3 backend''))) (\<lambda>c n. Some (Data (PStr ''local backend'')))
      Map.empty
     = Inr \<lparr>storage_config = Map.empty,
            storage_layers = Map.empty, storage_base = Map.empty,
            storage_tags = (\<lambda>n. Some (Data (PStr ''local backend'') :: unit attr))\<rparr>
   \<and> GlanceStorage_init (\<lambda>c. Map.empty) Map.empty
      (\<lambda>c n. Some (Data (PStr ''s3 backend'') :: unit attr)) (\<lambda>c n. Some (Data (PStr ''local backend'')))
      [''storage_alternate'' \<mapsto> PStr ''ftp'']
     = Inl (NotSupportedStorage (PStr ''ftp''))"
  using C7_alternate_store_selection
          [of "[''storage_alternate'' \<mapsto> PStr ''s3'']" "\<lambda>c. Map.empty" Map.empty
              "\<lambda>c n. Some (Data (PStr ''s3 backend'') :: unit attr)"
              "\<lambda>c n. Some (Data (PStr ''local backend''))"]
        C7_alternate_store_selection
          [of "Map.empty" "\<lambda>c. Map.empty" Map.empty
              "\<lambda>c n. Some (Data (PStr ''s3 backend'') :: unit attr)"
              "\<lambda>c n. Some (Data (PStr ''local backend''))"]
        C7_alternate_store_selection
          [of "[''storage_alternate'' \<mapsto> PStr ''ftp'']" "\<lambda>c. Map.empty" Map.empty
              "\<lambda>c n. Some (Data (PStr ''s3 backend'') :: unit attr)"
              "\<lambda>c n. Some (Data (PStr ''local backend''))"]
  by simp

text \<open>
  C8. When the object selected has the attribute asked for, the dispatcher raises the
  dispatch error if the attribute is false (\<open>None\<close>, \<open>0\<close>, the empty string and \<open>False\<close>
  are); it returns a value exactly when the attribute is that value, true and not
  callable, and it returns the result of a call exactly when the attribute is a true
  callable, applied to the arguments given.
\<close>

theorem C8_falsy_attribute_not_dispatched:
  assumes "resolve_obj self args kwargs = Inr obj" and "obj name = Some a"
  shows "(\<not> attr_truthy a \<longrightarrow>
            dispatcher self name args kwargs = Inl (CannotDispatch name args kwargs))
       \<and> (\<forall>v. dispatcher self name args kwargs = Inr (Returned v) \<longleftrightarrow> a = Data v \<and> truthy v)
       \<and> (\<forall>r. dispatcher self name args kwargs = Inr (Called r) \<longleftrightarrow>
                (\<exists>f. a = Callable True f \<and> r = f args kwargs))
       \<and> \<not> attr_truthy (Data PNone :: 'a attr) \<and> \<not> attr_truthy (Data (PInt 0) :: 'a attr)
       \<and> \<not> attr_truthy (Data (PStr '''') :: 'a attr)
       \<and> \<not> attr_truthy (Data (PBool False) :: 'a attr)"
  using assms
  by (cases a) (auto simp add: dispatcher_def resolve_class_path_def)


theorem C8_falsy_attribute_not_dispatched_witness:
  "resolve_obj
      \<lparr>storage_config = Map.empty, storage_layers = Map.empty,
       storage_base =
         [''buffer_size'' \<mapsto> Data (PInt 4096), ''cache'' \<mapsto> Data PNone,
          ''retries'' \<mapsto> Data (PInt 0),
          ''exists'' \<mapsto> Callable True (\<lambda>a k. length a),
          ''hook'' \<mapsto> Callable False (\<lambda>a k. length a)],
       storage_tags = Map.empty\<rparr>
      [PStr ''uploads/u1''] Map.empty
     = Inr [''buffer_size'' \<mapsto> Data (PInt 4096), ''cache'' \<mapsto> Data PNone,
            ''retries'' \<mapsto> Data (PInt 0),
            ''exists'' \<mapsto> Callable True (\<lambda>a k. length a),
            ''hook'' \<mapsto> Callable False (\<lambda>a k. length a)]
   \<and> dispatcher
      \<lparr>storage_config = Map.empty, storage_layers = Map.empty,
       storage_base =
         [''buffer_size'' \<mapsto> Data (PInt 4096), ''cache'' \<mapsto> Data PNone,
          ''retries'' \<mapsto> Data (PInt 0),
          ''exists'' \<mapsto> Callable True (\<lambda>a k. length a),
          ''hook'' \<mapsto> Callable False (\<lambda>a k. length a)],
       storage_tags = Map.empty\<rparr>
      ''cache'' [PStr ''uploads/u1''] Map.empty
       = Inl (CannotDispatch ''cache'' [PStr ''uploads/u1''] Map.empty)
   \<and> dispatcher
      \<lparr>storage_config = Map.empty, storage_layers = Map.empty,
       storage_base =
         [''buffer_size'' \<mapsto> Data (PInt 4096), ''cache'' \<mapsto> Data PNone,
          ''retries'' \<mapsto> Data (PInt 0),
          ''exists'' \<mapsto> Callable True (\<lambda>a k. length a),
          ''hook'' \<mapsto> Callable False (\<lambda>a k. length a)],
       storage_tags = Map.empty\<rparr>
      ''retries'' [PStr ''uploads/u1''] Map.empty
       = Inl (CannotDispatch ''retries'' [PStr ''uploads/u1''] Map.empty)
   \<and> dispatcher
      \<lparr>storage_config = Map.empty, storage_layers = Map.empty,
       storage_base =
         [''buffer_size'' \<mapsto> Data (PInt 4096), ''cache'' \<mapsto> Data PNone,
          ''retries'' \<mapsto> Data (PInt 0),
          ''exists'' \<mapsto> Callable True (\<lambda>a k. length a),
          ''hook'' \<mapsto> Callable False (\<lambda>a k. length a)],
       storage_tags = Map.empty\<rparr>
      ''hook'' [PStr ''uploads/u1''] Map.empty
       = Inl (CannotDispatch ''hook'' [PStr ''uploads/u1''] Map.empty)
   \<and> dispatcher
      \<lparr>storage_config = Map.empty, storage_layers = Map.empty,
       storage_base =
         [''buffer_size'' \<mapsto> Data (PInt 4096), ''cache'' \<mapsto> Data PNone,
          ''retries'' \<mapsto> Data (PInt 0),
          ''exists'' \<mapsto> Callable True (\<lambda>a k. length a),
          ''hook'' \<mapsto> Callable False (\<lambda>a k. length a)],
       storage_tags = Map.empty\<rparr>
      ''buffer_size'' [PStr ''uploads/u1''] Map.empty
       = Inr (Returned (PInt 4096))
   \<and> dispatcher
      \<lparr>storage_config = Map.empty, storage_layers = Map.empty,
       storage_base =
         [''buffer_size'' \<mapsto> Data (PInt 4096), ''cache'' \<mapsto> Data PNone,
          ''retries'' \<mapsto> Data (PInt 0),
          ''exists'' \<mapsto> Callable True (\<lambda>a k. length a),
          ''hook'' \<mapsto> Callable False (\<lambda>a k. length a)],
       storage_tags = Map.empty\<rparr>
      ''exists'' [PStr ''uploads/u1''] Map.empty
       = Inr (Called 1)"
proof -
  let ?B = "[''buffer_size'' \<mapsto> Data (PInt 4096), ''cache'' \<mapsto> Data PNone,
          ''retries'' \<mapsto> Data (PInt 0),
          ''exists'' \<mapsto> Callable True (\<lambda>a k. length a),
          ''hook'' \<mapsto> Callable False (\<lambda>a k. length a)] :: nat pyobj"
  let ?S = "\<lparr>storage_config = Map.empty, storage_layers = Map.empty,
       storage_base = ?B, storage_tags = Map.empty\<rparr>"
  let ?a = "[PStr ''uploads/u1'']"
  have o: "resolve_obj ?S ?a Map.empty = Inr ?B"
    by (simp add: resolve_obj_def resolve_path_def Storage_images_def Storage_repositories_def)
  have a1: "?B ''cache'' = Some (Data PNone)"
    and a2: "?B ''retries'' = Some (Data (PInt 0))"
    and a5: "?B ''hook'' = Some (Callable False (\<lambda>a k. length a))"
    and a6: "?B ''buffer_size'' = Some (Data (PInt 4096))"
    and a7: "?B ''exists'' = Some (Callable True (\<lambda>a k. length a))"
    by simp_all
  have c1: "dispatcher ?S ''cache'' ?a Map.empty = Inl (CannotDispatch ''cache'' ?a Map.empty)"
    using C8_falsy_attribute_not_dispatched [where self = ?S and args = ?a and kwargs = Map.empty and obj = ?B
              and name = "''cache''" and a = "Data PNone", OF o a1, THEN conjunct1] by simp
  have c2: "dispatcher ?S ''retries'' ?a Map.empty = Inl (CannotDispatch ''retries'' ?a Map.empty)"
    using C8_falsy_attribute_not_dispatched [where self = ?S and args = ?a and kwargs = Map.empty and obj = ?B
              and name = "''retries''" and a = "Data (PInt 0)", OF o a2, THEN conjunct1] by simp
  have c5: "dispatcher ?S ''hook'' ?a Map.empty = Inl (CannotDispatch ''hook'' ?a Map.empty)"
    using C8_falsy_attribute_not_dispatched [where self = ?S and args = ?a and kwargs = Map.empty and obj = ?B
              and name = "''hook''" and a = "Callable False (\<lambda>a k. length a)", OF o a5, THEN conjunct1] by simp
  have c6: "dispatcher ?S ''buffer_size'' ?a Map.empty = Inr (Returned (PInt 4096))"
    using C8_falsy_attribute_not_dispatched
            [where self = ?S and args = ?a and kwargs = Map.empty and obj = ?B
              and name = "''buffer_size''" and a = "Data (PInt 4096)", OF o a6, THEN conjunct2, THEN conjunct1, rule_format, of "PInt 4096"]
    by simp
  have c7: "dispatcher ?S ''exists'' ?a Map.empty = Inr (Called 1)"
    using C8_falsy_attribute_not_dispatched
            [where self = ?S and args = ?a and kwargs = Map.empty and obj = ?B
              and name = "''exists''" and a = "Callable True (\<lambda>a k. length a)", OF o a7, THEN conjunct2, THEN conjunct2, THEN conjunct1, rule_format, of 1]
    by auto
  from o c1 c2 c5 c6 c7 show ?thesis
    by (intro conjI)
qed

text \<open>
  C9. A keyword argument \<open>path\<close> is the path whatever the positional arguments are, so
  that the object selected does not depend on them; with no such keyword and no
  positional argument, or a first positional argument that is no string, the path is
  the empty string and the base store is selected.
\<close>

theorem C9_path_argument_precedence:
  "(\<forall>v. kwargs ''path'' = Some v \<longrightarrow>
        resolve_path args kwargs = v
      \<and> (\<forall>args'. resolve_obj self args kwargs = resolve_obj self args' kwargs))
   \<and> (kwargs ''path'' = None \<and> (args = [] \<or> \<not> isinstance_basestring (args ! 0)) \<longrightarrow>
        resolve_path args kwargs = PStr ''''
      \<and> resolve_obj self args kwargs = Inr (storage_base self)
      \<and> resolve_class_path self name args kwargs
          = Inr (case storage_base self name of None \<Rightarrow> Data PNone | Some a \<Rightarrow> a))"
  by (auto simp add: resolve_path_def resolve_obj_def resolve_class_path_def
        Storage_images_def Storage_repositories_def split: option.splits)

theorem C9_path_argument_precedence_witness:
  "resolve_path [PStr ''images/abc/json''] [''path'' \<mapsto> PStr ''repositories/a/b'']
     = PStr ''repositories/a/b''
   \<and> resolve_obj
         \<lparr>storage_config = Map.empty,
          storage_layers = [''exists'' \<mapsto> Callable True (\<lambda>a k. ''layers'')],
          storage_base = [''exists'' \<mapsto> Callable True (\<lambda>a k. ''base'')],
          storage_tags = [''exists'' \<mapsto> Callable True (\<lambda>a k. ''tags'')]\<rparr>
         [PStr ''images/abc/json''] [''path'' \<mapsto> PStr ''repositories/a/b'']
       = resolve_obj
           \<lparr>storage_config = Map.empty,
            storage_layers = [''exists'' \<mapsto> Callable True (\<lambda>a k. ''layers'')],
            storage_base = [''exists'' \<mapsto> Callable True (\<lambda>a k. ''base'')],
            storage_tags = [''exists'' \<mapsto> Callable True (\<lambda>a k. ''tags'')]\<rparr>
           [] [''path'' \<mapsto> PStr ''repositories/a/b'']
   \<and> resolve_path [PInt 7, PStr ''images/abc/json''] Map.empty = PStr []
   \<and> resolve_class_path
         \<lparr>storage_config = Map.empty,
          storage_layers = [''exists'' \<mapsto> Callable True (\<lambda>a k. ''layers'')],
          storage_base = [''exists'' \<mapsto> Callable True (\<lambda>a k. ''base'')],
          storage_tags = [''exists'' \<mapsto> Callable True (\<lambda>a k. ''tags'')]\<rparr>
         ''exists'' [PInt 7, PStr ''images/abc/json''] Map.empty
       = Inr (Callable True (\<lambda>a k. ''base''))"
proof -
  let ?S = "\<lparr>storage_config = Map.empty,
         storage_layers = [''exists'' \<mapsto> Callable True (\<lambda>a k. ''layers'')],
         storage_base = [''exists'' \<mapsto> Callable True (\<lambda>a k. ''base'')],
         storage_tags = [''exists'' \<mapsto> Callable True (\<lambda>a k. ''tags'')]\<rparr>"
  let ?kw = "[''path'' \<mapsto> PStr ''repositories/a/b'']"
  let ?args = "[PInt 7, PStr ''images/abc/json'']"
  have k: "?kw ''path'' = Some (PStr ''repositories/a/b'')"
    by simp
  have n: "Map.empty ''path'' = None \<and> (?args = [] \<or> \<not> isinstance_basestring (?args ! 0))"
    by simp
  have b: "storage_base ?S ''exists'' = Some (Callable True (\<lambda>a k. ''base''))"
    by simp
  note t1 = C9_path_argument_precedence
              [of ?kw "[PStr ''images/abc/json'']" ?S, THEN conjunct1, rule_format, OF k]
  note t2 = C9_path_argument_precedence
              [of Map.empty ?args ?S "''exists''", THEN conjunct2, rule_format, OF n]
  have c1: "resolve_path [PStr ''images/abc/json''] ?kw = PStr ''repositories/a/b''"
    using t1 by (rule conjunct1)
  have c2: "resolve_obj ?S [PStr ''images/abc/json''] ?kw = resolve_obj ?S [] ?kw"
    using t1 [THEN conjunct2] by (rule spec)
  have c3: "resolve_path ?args Map.empty = PStr []"
    using t2 by (rule conjunct1)
  have c4: "resolve_class_path ?S ''exists'' ?args Map.empty = Inr (Callable True (\<lambda>a k. ''base''))"
    using t2 [THEN conjunct2, THEN conjunct2] unfolding b by simp
  from c1 c2 c3 c4 show ?thesis
    by (intro conjI)
qed

text \<open>
  C10. \<open>remove\<close> on a property that the record has persists the remaining properties by
  an update without \<open>purge_props\<close>: what becomes of the property is what the service does
  by default. On a service that purges, the record is left with the remaining
  properties; on a service that merges, the service is left as it was and the property
  is still there. Every other update of the layer store and of the tag handlers passes
  \<open>purge_props=False\<close>: \<open>put_content\<close> and \<open>stream_write\<close> are the update with that flag
  through the handle that \<open>_init_path\<close> returns, \<open>_clear_images_name\<close> is one such update
  for each record listed under the name, the tag-created handler is one more on the
  record found, and the tag-deleted handler is \<open>_clear_images_name\<close>. So \<open>stream_write\<close>
  and the two handlers leave the properties of every record as they are, and what the
  four do is the same whatever the default of the service is.
\<close>

theorem C10_remove_uses_service_default:
  assumes "py_split CHR ''/'' path = [Storage_images, image_id, filename]"
    and "filename \<noteq> ''layer''"
    and "find_image_by_id g image_id = Some r"
    and "image_properties r (''meta_'' @ filename) \<noteq> None"
    and "distinct (map image_key (records g))"
  shows "remove_path g path =
           (Inr (), image_update g r
                      (Properties ((image_properties r)(''meta_'' @ filename := None))) None)
       \<and> find_image_by_id (snd (remove_path g path)) image_id
           = Some (if purge_default g
                   then r\<lparr>image_properties := (image_properties r)(''meta_'' @ filename := None)\<rparr>
                   else r)
       \<and> exists (snd (remove_path g path)) path
           = (Inr (\<not> purge_default g), snd (remove_path g path))
       \<and> (\<not> purge_default g \<longrightarrow> snd (remove_path g path) = g)
       \<and> (\<forall>content. put_content g path content =
             (Inr (), image_update g r (Properties [''meta_'' @ filename \<mapsto> content])
                        (Some False)))
       \<and> (\<forall>b path' content.
             snd (put_content (g\<lparr>purge_default := b\<rparr>) path' content)
               = (snd (put_content g path' content))\<lparr>purge_default := b\<rparr>)
       \<and> (\<forall>b path' fp.
             snd (stream_write (g\<lparr>purge_default := b\<rparr>) path' fp)
               = (snd (stream_write g path' fp))\<lparr>purge_default := b\<rparr>)
       \<and> (\<forall>b namespace repository tag val.
             handler_tag_created (g\<lparr>purge_default := b\<rparr>) namespace repository tag val
               = (handler_tag_created g namespace repository tag val)\<lparr>purge_default := b\<rparr>)
       \<and> (\<forall>b namespace repository tag.
             handler_tag_deleted (g\<lparr>purge_default := b\<rparr>) namespace repository tag
               = (handler_tag_deleted g namespace repository tag)\<lparr>purge_default := b\<rparr>)
       \<and> (\<forall>path' content img p g1.
             init_path g path' True = (Inr (Some img, Some p), g1) \<longrightarrow>
               put_content g path' content =
                 (Inr (), image_update g1 img (Properties [p \<mapsto> content]) (Some False)))
       \<and> (\<forall>path' fp img g1.
             init_path g path' True = (Inr (Some img, None), g1) \<longrightarrow>
               stream_write g path' fp =
                 (Inr (), image_update g1 img (DataStream fp) (Some False))
             \<and> map image_properties (records (snd (stream_write g path' fp)))
                 = map image_properties (records g1))
       \<and> (\<forall>n. clear_images_name g n =
                 fold (\<lambda>img g. image_update g img (Name None) (Some False))
                   (images_list g \<lparr>filter_disk_format = None, filter_container_format = None,
                                   filter_properties = [], filter_name = Some n\<rparr>) g
             \<and> map image_properties (records (clear_images_name g n))
                 = map image_properties (records g))
       \<and> (\<forall>namespace repository tag val.
             handler_tag_created g namespace repository tag val =
               (case find_image_by_id g val of
                  None \<Rightarrow> g
                | Some img \<Rightarrow>
                    image_update (clear_images_name g (tag_image_name namespace repository tag))
                      img (Name (Some (tag_image_name namespace repository tag))) (Some False))
             \<and> map image_properties
                   (records (handler_tag_created g namespace repository tag val))
                 = map image_properties (records g))
       \<and> (\<forall>namespace repository tag.
             handler_tag_deleted g namespace repository tag
               = clear_images_name g (tag_image_name namespace repository tag)
             \<and> map image_properties (records (handler_tag_deleted g namespace repository tag))
                 = map image_properties (records g))"
proof -
  let ?p = "''meta_'' @ filename"
  let ?g' = "image_update g r (Properties ((image_properties r)(?p := None))) None"
  have r: "r \<in> set (records g)"
    using assms(3) find_image_by_id_in_records by blast
  have rm: "remove_path g path = (Inr (), ?g')"
    by (rule remove_path_property [OF assms(1-4)])
  have found: "find_image_by_id ?g' image_id
                 = Some (if purge_default g
                         then r\<lparr>image_properties := (image_properties r)(?p := None)\<rparr> else r)"
    by (rule find_after_remove_property [OF assms(3) meta_not_id assms(5)])
  have ex: "exists ?g' path = (Inr (\<not> purge_default g), ?g')"
    using assms(2,4) found by (simp add: exists_lookup [OF assms(1)])
  have same: "?g' = g" if "\<not> purge_default g"
    using remove_path_merging [OF assms(1-5) that] rm by simp
  have put: "put_content g path content =
               (Inr (), image_update g r (Properties [?p \<mapsto> content]) (Some False))"
    for content
    using init_path_found [OF assms(1,3), of True] assms(2) by (simp add: put_content_def)
  have first: "remove_path g path = (Inr (), ?g')
       \<and> find_image_by_id (snd (remove_path g path)) image_id
           = Some (if purge_default g
                   then r\<lparr>image_properties := (image_properties r)(?p := None)\<rparr> else r)
       \<and> exists (snd (remove_path g path)) path
           = (Inr (\<not> purge_default g), snd (remove_path g path))
       \<and> (\<not> purge_default g \<longrightarrow> snd (remove_path g path) = g)
       \<and> (\<forall>content. put_content g path content =
             (Inr (), image_update g r (Properties [?p \<mapsto> content]) (Some False)))"
    using rm found ex same put by simp
  have indep: "(\<forall>b path' content.
             snd (put_content (g\<lparr>purge_default := b\<rparr>) path' content)
               = (snd (put_content g path' content))\<lparr>purge_default := b\<rparr>)
       \<and> (\<forall>b path' fp.
             snd (stream_write (g\<lparr>purge_default := b\<rparr>) path' fp)
               = (snd (stream_write g path' fp))\<lparr>purge_default := b\<rparr>)
       \<and> (\<forall>b namespace repository tag val.
             handler_tag_created (g\<lparr>purge_default := b\<rparr>) namespace repository tag val
               = (handler_tag_created g namespace repository tag val)\<lparr>purge_default := b\<rparr>)
       \<and> (\<forall>b namespace repository tag.
             handler_tag_deleted (g\<lparr>purge_default := b\<rparr>) namespace repository tag
               = (handler_tag_deleted g namespace repository tag)\<lparr>purge_default := b\<rparr>)"
    by (simp add: put_content_purge stream_write_purge handler_tag_created_purge
          handler_tag_deleted_purge)
  have pc: "\<forall>path' content img p g1.
             init_path g path' True = (Inr (Some img, Some p), g1) \<longrightarrow>
               put_content g path' content =
                 (Inr (), image_update g1 img (Properties [p \<mapsto> content]) (Some False))"
    using put_content_call by blast
  have sw: "\<forall>path' fp img g1.
             init_path g path' True = (Inr (Some img, None), g1) \<longrightarrow>
               stream_write g path' fp =
                 (Inr (), image_update g1 img (DataStream fp) (Some False))
             \<and> map image_properties (records (snd (stream_write g path' fp)))
                 = map image_properties (records g1)"
    by (simp add: stream_write_call properties_image_update_merge)
  have cl: "\<forall>n. clear_images_name g n =
                 fold (\<lambda>img g. image_update g img (Name None) (Some False))
                   (images_list g \<lparr>filter_disk_format = None, filter_container_format = None,
                                   filter_properties = [], filter_name = Some n\<rparr>) g
             \<and> map image_properties (records (clear_images_name g n))
                 = map image_properties (records g)"
    using properties_clear_images_name by (simp add: clear_images_name_def)
  have hc: "\<forall>namespace repository tag val.
             handler_tag_created g namespace repository tag val =
               (case find_image_by_id g val of
                  None \<Rightarrow> g
                | Some img \<Rightarrow>
                    image_update (clear_images_name g (tag_image_name namespace repository tag))
                      img (Name (Some (tag_image_name namespace repository tag))) (Some False))
             \<and> map image_properties
                   (records (handler_tag_created g namespace repository tag val))
                 = map image_properties (records g)"
    using handler_tag_created_call properties_handler_tag_created by blast
  have hd: "\<forall>namespace repository tag.
             handler_tag_deleted g namespace repository tag
               = clear_images_name g (tag_image_name namespace repository tag)
             \<and> map image_properties (records (handler_tag_deleted g namespace repository tag))
                 = map image_properties (records g)"
    by (simp add: handler_tag_deleted_def properties_clear_images_name)
  from first indep pc sw cl hc hd show ?thesis
    by (intro conjI) blast+
qed

theorem C10_remove_uses_service_default_witness:
  "py_split CHR ''/'' ''images/abc/json'' = [Storage_images, ''abc'', ''json'']
   \<and> ''json'' \<noteq> ''layer''
   \<and> find_image_by_id \<lparr>purge_default = False, next_key = 2,
         records =
           [\<lparr>image_key = 1, image_disk_format = ''raw'', image_container_format = ''bare'',
             image_properties = [''id'' \<mapsto> ''abc'', ''meta_json'' \<mapsto> ''{}''],
             image_name = None, image_data = [], image_size = 0\<rparr>,
            \<lparr>image_key = 0, image_disk_format = ''raw'', image_container_format = ''bare'',
             image_properties = [''id'' \<mapsto> ''xyz''],
             image_name = None, image_data = [], image_size = 0\<rparr>]\<rparr> ''abc'' = Some \<lparr>image_key = 1, image_disk_format = ''raw'', image_container_format = ''bare'',
             image_properties = [''id'' \<mapsto> ''abc'', ''meta_json'' \<mapsto> ''{}''],
             image_name = None, image_data = [], image_size = 0\<rparr>
   \<and> image_properties \<lparr>image_key = 1, image_disk_format = ''raw'', image_container_format = ''bare'',
             image_properties = [''id'' \<mapsto> ''abc'', ''meta_json'' \<mapsto> ''{}''],
             image_name = None, image_data = [], image_size = 0\<rparr> (''meta_'' @ ''json'') \<noteq> None
   \<and> distinct (map image_key (records \<lparr>purge_default = False, next_key = 2,
         records =
           [\<lparr>image_key = 1, image_disk_format = ''raw'', image_container_format = ''bare'',
             image_properties = [''id'' \<mapsto> ''abc'', ''meta_json'' \<mapsto> ''{}''],
             image_name = None, image_data = [], image_size = 0\<rparr>,
            \<lparr>image_key = 0, image_disk_format = ''raw'', image_container_format = ''bare'',
             image_properties = [''id'' \<mapsto> ''xyz''],
             image_name = None, image_data = [], image_size = 0\<rparr>]\<rparr>))
   \<and> snd (remove_path \<lparr>purge_default = False, next_key = 2,
         records =
           [\<lparr>image_key = 1, image_disk_format = ''raw'', image_container_format = ''bare'',
             image_properties = [''id'' \<mapsto> ''abc'', ''meta_json'' \<mapsto> ''{}''],
             image_name = None, image_data = [], image_size = 0\<rparr>,
            \<lparr>image_key = 0, image_disk_format = ''raw'', image_container_format = ''bare'',
             image_properties = [''id'' \<mapsto> ''xyz''],
             image_name = None, image_data = [], image_size = 0\<rparr>]\<rparr> ''images/abc/json'') = \<lparr>purge_default = False, next_key = 2,
         records =
           [\<lparr>image_key = 1, image_disk_format = ''raw'', image_container_format = ''bare'',
             image_properties = [''id'' \<mapsto> ''abc'', ''meta_json'' \<mapsto> ''{}''],
             image_name = None, image_data = [], image_size = 0\<rparr>,
            \<lparr>image_key = 0, image_disk_format = ''raw'', image_container_format = ''bare'',
             image_properties = [''id'' \<mapsto> ''xyz''],
             image_name = None, image_data = [], image_size = 0\<rparr>]\<rparr>
   \<and> exists (snd (remove_path \<lparr>purge_default = False, next_key = 2,
         records =
           [\<lparr>image_key = 1, image_disk_format = ''raw'', image_container_format = ''bare'',
             image_properties = [''id'' \<mapsto> ''abc'', ''meta_json'' \<mapsto> ''{}''],
             image_name = None, image_data = [], image_size = 0\<rparr>,
            \<lparr>image_key = 0, image_disk_format = ''raw'', image_container_format = ''bare'',
             image_properties = [''id'' \<mapsto> ''xyz''],
             image_name = None, image_data = [], image_size = 0\<rparr>]\<rparr> ''images/abc/json'')) ''images/abc/json''
       = (Inr True, snd (remove_path \<lparr>purge_default = False, next_key = 2,
         records =
           [\<lparr>image_key = 1, image_disk_format = ''raw'', image_container_format = ''bare'',
             image_properties = [''id'' \<mapsto> ''abc'', ''meta_json'' \<mapsto> ''{}''],
             image_name = None, image_data = [], image_size = 0\<rparr>,
            \<lparr>image_key = 0, image_disk_format = ''raw'', image_container_format = ''bare'',
             image_properties = [''id'' \<mapsto> ''xyz''],
             image_name = None, image_data = [], image_size = 0\<rparr>]\<rparr> ''images/abc/json''))
   \<and> find_image_by_id \<lparr>purge_default = True, next_key = 2,
         records =
           [\<lparr>image_key = 1, image_disk_format = ''raw'', image_container_format = ''bare'',
             image_properties = [''id'' \<mapsto> ''abc'', ''meta_json'' \<mapsto> ''{}''],
             image_name = None, image_data = [], image_size = 0\<rparr>,
            \<lparr>image_key = 0, image_disk_format = ''raw'', image_container_format = ''bare'',
             image_properties = [''id'' \<mapsto> ''xyz''],
             image_name = None, image_data = [], image_size = 0\<rparr>]\<rparr> ''abc'' = Some \<lparr>image_key = 1, image_disk_format = ''raw'', image_container_format = ''bare'',
             image_properties = [''id'' \<mapsto> ''abc'', ''meta_json'' \<mapsto> ''{}''],
             image_name = None, image_data = [], image_size = 0\<rparr>
   \<and> distinct (map image_key (records \<lparr>purge_default = True, next_key = 2,
         records =
           [\<lparr>image_key = 1, image_disk_format = ''raw'', image_container_format = ''bare'',
             image_properties = [''id'' \<mapsto> ''abc'', ''meta_json'' \<mapsto> ''{}''],
             image_name = None, image_data = [], image_size = 0\<rparr>,
            \<lparr>image_key = 0, image_disk_format = ''raw'', image_container_format = ''bare'',
             image_properties = [''id'' \<mapsto> ''xyz''],
             image_name = None, image_data = [], image_size = 0\<rparr>]\<rparr>))
   \<and> exists (snd (remove_path \<lparr>purge_default = True, next_key = 2,
         records =
           [\<lparr>image_key = 1, image_disk_format = ''raw'', image_container_format = ''bare'',
             image_properties = [''id'' \<mapsto> ''abc'', ''meta_json'' \<mapsto> ''{}''],
             image_name = None, image_data = [], image_size = 0\<rparr>,
            \<lparr>image_key = 0, image_disk_format = ''raw'', image_container_format = ''bare'',
             image_properties = [''id'' \<mapsto> ''xyz''],
             image_name = None, image_data = [], image_size = 0\<rparr>]\<rparr> ''images/abc/json'')) ''images/abc/json''
       = (Inr False, snd (remove_path \<lparr>purge_default = True, next_key = 2,
         records =
           [\<lparr>image_key = 1, image_disk_format = ''raw'', image_container_format = ''bare'',
             image_properties = [''id'' \<mapsto> ''abc'', ''meta_json'' \<mapsto> ''{}''],
             image_name = None, image_data = [], image_size = 0\<rparr>,
            \<lparr>image_key = 0, image_disk_format = ''raw'', image_container_format = ''bare'',
             image_properties = [''id'' \<mapsto> ''xyz''],
             image_name = None, image_data = [], image_size = 0\<rparr>]\<rparr> ''images/abc/json''))
   \<and> init_path \<lparr>purge_default = True, next_key = 2,
         records =
           [\<lparr>image_key = 1, image_disk_format = ''raw'', image_container_format = ''bare'',
             image_properties = [''id'' \<mapsto> ''abc'', ''meta_json'' \<mapsto> ''{}''],
             image_name = None, image_data = [], image_size = 0\<rparr>,
            \<lparr>image_key = 0, image_disk_format = ''raw'', image_container_format = ''bare'',
             image_properties = [''id'' \<mapsto> ''xyz''],
             image_name = None, image_data = [], image_size = 0\<rparr>]\<rparr> ''images/abc/layer'' True = (Inr (Some \<lparr>image_key = 1, image_disk_format = ''raw'', image_container_format = ''bare'',
             image_properties = [''id'' \<mapsto> ''abc'', ''meta_json'' \<mapsto> ''{}''],
             image_name = None, image_data = [], image_size = 0\<rparr>, None), \<lparr>purge_default = True, next_key = 2,
         records =
           [\<lparr>image_key = 1, image_disk_format = ''raw'', image_container_format = ''bare'',
             image_properties = [''id'' \<mapsto> ''abc'', ''meta_json'' \<mapsto> ''{}''],
             image_name = None, image_data = [], image_size = 0\<rparr>,
            \<lparr>image_key = 0, image_disk_format = ''raw'', image_container_format = ''bare'',
             image_properties = [''id'' \<mapsto> ''xyz''],
             image_name = None, image_data = [], image_size = 0\<rparr>]\<rparr>)
   \<and> stream_write \<lparr>purge_default = True, next_key = 2,
         records =
           [\<lparr>image_key = 1, image_disk_format = ''raw'', image_container_format = ''bare'',
             image_properties = [''id'' \<mapsto> ''abc'', ''meta_json'' \<mapsto> ''{}''],
             image_name = None, image_data = [], image_size = 0\<rparr>,
            \<lparr>image_key = 0, image_disk_format = ''raw'', image_container_format = ''bare'',
             image_properties = [''id'' \<mapsto> ''xyz''],
             image_name = None, image_data = [], image_size = 0\<rparr>]\<rparr> ''images/abc/layer'' ''data''
       = (Inr (), image_update \<lparr>purge_default = True, next_key = 2,
         records =
           [\<lparr>image_key = 1, image_disk_format = ''raw'', image_container_format = ''bare'',
             image_properties = [''id'' \<mapsto> ''abc'', ''meta_json'' \<mapsto> ''{}''],
             image_name = None, image_data = [], image_size = 0\<rparr>,
            \<lparr>image_key = 0, image_disk_format = ''raw'', image_container_format = ''bare'',
             image_properties = [''id'' \<mapsto> ''xyz''],
             image_name = None, image_data = [], image_size = 0\<rparr>]\<rparr> \<lparr>image_key = 1, image_disk_format = ''raw'', image_container_format = ''bare'',
             image_properties = [''id'' \<mapsto> ''abc'', ''meta_json'' \<mapsto> ''{}''],
             image_name = None, image_data = [], image_size = 0\<rparr> (DataStream ''data'') (Some False))
   \<and> map image_properties (records (snd (stream_write \<lparr>purge_default = True, next_key = 2,
         records =
           [\<lparr>image_key = 1, image_disk_format = ''raw'', image_container_format = ''bare'',
             image_properties = [''id'' \<mapsto> ''abc'', ''meta_json'' \<mapsto> ''{}''],
             image_name = None, image_data = [], image_size = 0\<rparr>,
            \<lparr>image_key = 0, image_disk_format = ''raw'', image_container_format = ''bare'',
             image_properties = [''id'' \<mapsto> ''xyz''],
             image_name = None, image_data = [], image_size = 0\<rparr>]\<rparr> ''images/abc/layer'' ''data'')))
       = map image_properties (records \<lparr>purge_default = True, next_key = 2,
         records =
           [\<lparr>image_key = 1, image_disk_format = ''raw'', image_container_format = ''bare'',
             image_properties = [''id'' \<mapsto> ''abc'', ''meta_json'' \<mapsto> ''{}''],
             image_name = None, image_data = [], image_size = 0\<rparr>,
            \<lparr>image_key = 0, image_disk_format = ''raw'', image_container_format = ''bare'',
             image_properties = [''id'' \<mapsto> ''xyz''],
             image_name = None, image_data = [], image_size = 0\<rparr>]\<rparr>)"
proof -
  let ?gf = "\<lparr>purge_default = False, next_key = 2,
         records =
           [\<lparr>image_key = 1, image_disk_format = ''raw'', image_container_format = ''bare'',
             image_properties = [''id'' \<mapsto> ''abc'', ''meta_json'' \<mapsto> ''{}''],
             image_name = None, image_data = [], image_size = 0\<rparr>,
            \<lparr>image_key = 0, image_disk_format = ''raw'', image_container_format = ''bare'',
             image_properties = [''id'' \<mapsto> ''xyz''],
             image_name = None, image_data = [], image_size = 0\<rparr>]\<rparr>"
  let ?gt = "\<lparr>purge_default = True, next_key = 2,
         records =
           [\<lparr>image_key = 1, image_disk_format = ''raw'', image_container_format = ''bare'',
             image_properties = [''id'' \<mapsto> ''abc'', ''meta_json'' \<mapsto> ''{}''],
             image_name = None, image_data = [], image_size = 0\<rparr>,
            \<lparr>image_key = 0, image_disk_format = ''raw'', image_container_format = ''bare'',
             image_properties = [''id'' \<mapsto> ''xyz''],
             image_name = None, image_data = [], image_size = 0\<rparr>]\<rparr>"
  let ?ra = "\<lparr>image_key = 1, image_disk_format = ''raw'', image_container_format = ''bare'',
             image_properties = [''id'' \<mapsto> ''abc'', ''meta_json'' \<mapsto> ''{}''],
             image_name = None, image_data = [], image_size = 0\<rparr>"
  have h: "py_split CHR ''/'' ''images/abc/json'' = [Storage_images, ''abc'', ''json'']"
    by (simp add: Storage_images_def)
  have n: "''json'' \<noteq> ''layer''"
    and p: "image_properties ?ra (''meta_'' @ ''json'') \<noteq> None"
    and df: "distinct (map image_key (records ?gf))"
    and dt: "distinct (map image_key (records ?gt))"
    by simp_all
  have ff: "find_image_by_id ?gf ''abc'' = Some ?ra"
    and ft: "find_image_by_id ?gt ''abc'' = Some ?ra"
    by (simp_all add: find_image_by_id_find layer_id_def disk_format_def container_format_def)
  note tf = C10_remove_uses_service_default [OF h n ff p df]
  note tt = C10_remove_uses_service_default [OF h n ft p dt]
  have c1: "snd (remove_path ?gf ''images/abc/json'') = ?gf"
    using tf [THEN conjunct2, THEN conjunct2, THEN conjunct2, THEN conjunct1] by simp
  have c2: "exists (snd (remove_path ?gf ''images/abc/json'')) ''images/abc/json''
              = (Inr True, snd (remove_path ?gf ''images/abc/json''))"
    using tf [THEN conjunct2, THEN conjunct2, THEN conjunct1] by simp
  have c3: "exists (snd (remove_path ?gt ''images/abc/json'')) ''images/abc/json''
              = (Inr False, snd (remove_path ?gt ''images/abc/json''))"
    using tt [THEN conjunct2, THEN conjunct2, THEN conjunct1] by simp
  have h2: "py_split CHR ''/'' ''images/abc/layer'' = [Storage_images, ''abc'', ''layer'']"
    by (simp add: Storage_images_def)
  have ip: "init_path ?gt ''images/abc/layer'' True = (Inr (Some ?ra, None), ?gt)"
    using init_path_found [OF h2 ft, of True] by simp
  note sw = tt [THEN conjunct2, THEN conjunct2, THEN conjunct2, THEN conjunct2, THEN conjunct2,
              THEN conjunct2, THEN conjunct2, THEN conjunct2, THEN conjunct2, THEN conjunct2,
              THEN conjunct1, rule_format, OF ip, of "''data''"]
  have c4: "stream_write ?gt ''images/abc/layer'' ''data''
              = (Inr (), image_update ?gt ?ra (DataStream ''data'') (Some False))"
    using sw by (rule conjunct1)
  have c5: "map image_properties (records (snd (stream_write ?gt ''images/abc/layer'' ''data'')))
              = map image_properties (records ?gt)"
    using sw by (rule conjunct2)
  from h n ff p df c1 c2 ft dt c3 ip c4 c5 show ?thesis
    by (intro conjI)
qed

end
